theory Spec2Isabelle
  imports Main "HOL-Library.Sublist"
begin

section \<open>The Python download script (scripts/download-python.js)\<close>

text \<open>
  The script resolves a platform key, looks the key up in a static table, downloads the
  archive over HTTPS (following 301/302 redirects), unpacks it and deletes the archive.
  Everything the script does to the outside world is made explicit here: the file system
  is a map from paths to nodes, and every call that leaves the process (a write to
  standard output or standard error, an HTTP request, a file system call, an unpack) is
  appended to a trace, in the order the script issues it.
\<close>

subsection \<open>Constants and the platform table\<close>

definition PYTHON_VERSION :: string where
  "PYTHON_VERSION = ''3.11.9+20240726''"

definition RELEASE_TAG :: string where
  "RELEASE_TAG = ''20240726''"

definition PYTHON_OFFICIAL_VERSION :: string where
  "PYTHON_OFFICIAL_VERSION = ''3.11.9''"

record platform_config =
  url :: string
  type :: string

text \<open>
  The object literal \<open>PLATFORMS\<close>, as the list of its own properties in insertion order
  (the order \<open>Object.keys\<close> returns them in).
\<close>

definition standalone_url :: "string \<Rightarrow> string" where
  "standalone_url triple =
     ''https://github.com/indygreg/python-build-standalone/releases/download/'' @ RELEASE_TAG
       @ ''/cpython-'' @ PYTHON_VERSION @ ''-'' @ triple @ ''-install_only.tar.gz''"

definition PLATFORMS :: "(string \<times> platform_config) list" where
  "PLATFORMS =
    [(''darwin-arm64'', \<lparr>url = standalone_url ''aarch64-apple-darwin'', type = ''tar.gz''\<rparr>),
     (''darwin-x64'', \<lparr>url = standalone_url ''x86_64-apple-darwin'', type = ''tar.gz''\<rparr>),
     (''linux-x64'', \<lparr>url = standalone_url ''x86_64-unknown-linux-gnu'', type = ''tar.gz''\<rparr>),
     (''linux-arm64'', \<lparr>url = standalone_url ''aarch64-unknown-linux-gnu'', type = ''tar.gz''\<rparr>),
     (''win32-x64'', \<lparr>url = standalone_url ''x86_64-pc-windows-msvc-shared'', type = ''tar.gz''\<rparr>),
     (''win32-arm64'',
        \<lparr>url = ''https://www.python.org/ftp/python/'' @ PYTHON_OFFICIAL_VERSION @ ''/python-''
                 @ PYTHON_OFFICIAL_VERSION @ ''-embed-arm64.zip'',
         type = ''zip''\<rparr>)]"

text \<open>
  \<open>PLATFORMS[platformKey]\<close> is a JavaScript property read on an ordinary object: a key
  that is not an own property is looked up on \<open>Object.prototype\<close>. The names below are
  the properties of \<open>Object.prototype\<close>; each of them holds a function or an object, a
  truthy value that has neither a \<open>url\<close> nor a \<open>type\<close> property.
\<close>

definition object_prototype_keys :: "string list" where
  "object_prototype_keys =
    [''constructor'', ''__defineGetter__'', ''__defineSetter__'', ''hasOwnProperty'',
     ''__lookupGetter__'', ''__lookupSetter__'', ''isPrototypeOf'', ''propertyIsEnumerable'',
     ''toString'', ''valueOf'', ''__proto__'', ''toLocaleString'']"

text \<open>
  A value read from the table: \<open>undefined\<close>, or an object, of which only the two
  properties the script destructures are kept (\<open>None\<close> is \<open>undefined\<close>).
\<close>

datatype js_value = Undefined | Object "string option" "string option"

definition get_property :: "string \<Rightarrow> js_value" where
  "get_property platformKey =
     (case map_of PLATFORMS platformKey of
        Some c \<Rightarrow> Object (Some (url c)) (Some (type c))
      | None \<Rightarrow> if platformKey \<in> set object_prototype_keys then Object None None else Undefined)"

definition getPlatformKey :: "string \<Rightarrow> string \<Rightarrow> string" where
  "getPlatformKey platform arch = platform @ ''-'' @ arch"

subsection \<open>Errors\<close>

text \<open>
  The \<open>Error\<close> values the script can see. \<open>DownloadFailed\<close> and
  \<open>UnsupportedArchiveType\<close> are the two errors the script constructs itself;
  \<open>InvalidArgType\<close> is the \<open>TypeError\<close> that \<open>path.basename\<close> throws for an argument
  that is not a string; \<open>External\<close> is an error raised by the runtime or by a library (the
  network, the file system, the unpackers), with its message.
\<close>

datatype js_error =
    DownloadFailed nat
  | UnsupportedArchiveType "string option"
  | InvalidArgType
  | External string

fun decimal :: "nat \<Rightarrow> string" where
  "decimal n = (if n < 10 then [''0123456789'' ! n]
                else decimal (n div 10) @ [''0123456789'' ! (n mod 10)])"

declare decimal.simps [simp del]

definition template :: "string option \<Rightarrow> string" where
  "template v = (case v of None \<Rightarrow> ''undefined'' | Some s \<Rightarrow> s)"

text \<open>
  \<open>error.message\<close>. The text of the \<open>TypeError\<close> is the one of Node.js 12 and later.
\<close>

fun message :: "js_error \<Rightarrow> string" where
  "message (DownloadFailed status) = ''Download failed with status '' @ decimal status"
| "message (UnsupportedArchiveType t) = ''Unsupported archive type: '' @ template t"
| "message InvalidArgType =
     ''The '' @ [CHR 0x22] @ ''path'' @ [CHR 0x22] @ '' argument must be of type string. Received undefined''"
| "message (External m) = m"

subsection \<open>Paths\<close>

text \<open>
  A path of the file system is the list of its components below the root. \<open>path.join\<close>
  and \<open>path.basename\<close> are the POSIX ones: \<open>components\<close> splits a string at \<open>/\<close>,
  \<open>normalize\<close> drops empty and \<open>.\<close> components and resolves \<open>..\<close> against the component
  before it (at the root, \<open>..\<close> stays at the root).
\<close>

type_synonym path = "string list"

fun components_acc :: "string \<Rightarrow> string \<Rightarrow> string list" where
  "components_acc cur [] = [rev cur]"
| "components_acc cur (c # cs) =
     (if c = CHR ''/'' then rev cur # components_acc [] cs else components_acc (c # cur) cs)"

definition components :: "string \<Rightarrow> string list" where
  "components s = components_acc [] s"

fun normalize_acc :: "path \<Rightarrow> string list \<Rightarrow> path" where
  "normalize_acc acc [] = rev acc"
| "normalize_acc acc (c # cs) =
     (if c = [] \<or> c = ''.'' then normalize_acc acc cs
      else if c = ''..'' then normalize_acc (tl acc) cs
      else normalize_acc (c # acc) cs)"

definition path_join :: "path \<Rightarrow> string list \<Rightarrow> path" where
  "path_join base segments = normalize_acc (rev base) (concat (map components segments))"

definition path_string :: "path \<Rightarrow> string" where
  "path_string p = (if p = [] then ''/'' else concat (map (\<lambda>c. ''/'' @ c) p))"

text \<open>
  \<open>path.basename\<close> of a string: the part after the last \<open>/\<close>, trailing slashes ignored.
  Of a value that is not a string it throws.
\<close>

definition basename :: "string option \<Rightarrow> js_error + string" where
  "basename p =
     (case p of
        None \<Rightarrow> Inl InvalidArgType
      | Some s \<Rightarrow> (case filter (\<lambda>c. c \<noteq> []) (components s) of
                    [] \<Rightarrow> Inr []
                  | cs \<Rightarrow> Inr (last cs)))"

subsection \<open>The world outside the process\<close>

datatype node = Dir | File string

datatype event =
    Stdout string
  | Stderr string
  | HttpGet "string option"
  | Mkdir path
  | CreateWriteStream path
  | TarExtract path path nat
  | ExtractAllTo path path bool
  | Unlink path

record world =
  fs :: "path \<rightharpoonup> node"
  trace :: "event list"

definition emit :: "event \<Rightarrow> world \<Rightarrow> world" where
  "emit e w = w\<lparr>trace := trace w @ [e]\<rparr>"

definition newline :: string where
  "newline = [CHR 0x0A]"

definition console_log :: "string \<Rightarrow> world \<Rightarrow> world" where
  "console_log s w = emit (Stdout (s @ newline)) w"

definition console_error :: "string \<Rightarrow> world \<Rightarrow> world" where
  "console_error s w = emit (Stderr (s @ newline)) w"

definition stdout_write :: "string \<Rightarrow> world \<Rightarrow> world" where
  "stdout_write s w = emit (Stdout s) w"

text \<open>The URLs requested so far, oldest first.\<close>

fun requests :: "event list \<Rightarrow> string option list" where
  "requests [] = []"
| "requests (HttpGet u # es) = u # requests es"
| "requests (e # es) = requests es"

subsubsection \<open>The file system\<close>

text \<open>
  The file system has no permissions and no I/O faults: a call fails only for the
  structural reasons written out below (a file where a directory is needed, a missing
  parent, a missing file). The error texts follow those of Node.js on Linux.
\<close>

definition is_file :: "node option \<Rightarrow> bool" where
  "is_file n = (case n of Some (File c) \<Rightarrow> True | _ \<Rightarrow> False)"

definition is_dir :: "(path \<rightharpoonup> node) \<Rightarrow> path \<Rightarrow> bool" where
  "is_dir f p = (p = [] \<or> f p = Some Dir)"

definition quoted :: "path \<Rightarrow> string" where
  "quoted p = [CHR 0x27] @ path_string p @ [CHR 0x27]"

definition existsSync :: "path \<Rightarrow> world \<Rightarrow> bool" where
  "existsSync p w = (p = [] \<or> fs w p \<noteq> None)"

text \<open>\<open>fs.promises.mkdir(p, { recursive: true })\<close>\<close>

definition mkdir :: "path \<Rightarrow> world \<Rightarrow> (js_error + unit) \<times> world" where
  "mkdir p w =
     (let w1 = emit (Mkdir p) w in
      if is_file (fs w1 p) then
        (Inl (External (''EEXIST: file already exists, mkdir '' @ quoted p)), w1)
      else if \<exists>q \<in> set (prefixes p). is_file (fs w1 q) then
        (Inl (External (''ENOTDIR: not a directory, mkdir '' @ quoted p)), w1)
      else
        (Inr (), w1\<lparr>fs := (\<lambda>q. if q \<noteq> [] \<and> prefix q p then Some Dir else fs w1 q)\<rparr>))"

text \<open>\<open>fs.promises.unlink(p)\<close>\<close>

definition unlink :: "path \<Rightarrow> world \<Rightarrow> (js_error + unit) \<times> world" where
  "unlink p w =
     (let w1 = emit (Unlink p) w in
      case fs w1 p of
        Some (File c) \<Rightarrow> (Inr (), w1\<lparr>fs := (fs w1)(p := None)\<rparr>)
      | Some Dir \<Rightarrow>
          (Inl (External (''EISDIR: illegal operation on a directory, unlink '' @ quoted p)), w1)
      | None \<Rightarrow>
          (Inl (External (''ENOENT: no such file or directory, unlink '' @ quoted p)), w1))"

text \<open>
  \<open>fs.createWriteStream(dest)\<close>: the file is opened for writing and truncated. A failure
  to open it is an error of the stream, which rejects the pipeline; no chunk is taken as
  received in that case.
\<close>

definition createWriteStream :: "path \<Rightarrow> world \<Rightarrow> (js_error + unit) \<times> world" where
  "createWriteStream dest w =
     (let w1 = emit (CreateWriteStream dest) w in
      if dest = [] \<or> fs w1 dest = Some Dir then
        (Inl (External (''EISDIR: illegal operation on a directory, open '' @ quoted dest)), w1)
      else if is_file (fs w1 (butlast dest)) then
        (Inl (External (''ENOTDIR: not a directory, open '' @ quoted dest)), w1)
      else if \<not> is_dir (fs w1) (butlast dest) then
        (Inl (External (''ENOENT: no such file or directory, open '' @ quoted dest)), w1)
      else
        (Inr (), w1\<lparr>fs := (fs w1)(dest \<mapsto> File [])\<rparr>))"

definition append_file :: "path \<Rightarrow> string \<Rightarrow> world \<Rightarrow> world" where
  "append_file dest chunk w =
     w\<lparr>fs := (fs w)(dest \<mapsto> File ((case fs w dest of Some (File c) \<Rightarrow> c | _ \<Rightarrow> []) @ chunk))\<rparr>"

subsubsection \<open>The network\<close>

text \<open>
  What the callback of \<open>https.get\<close> receives: the status code, the two headers the script
  reads (\<open>None\<close> when the header is absent), the chunks of the body in the order of
  their \<open>data\<close> events, and the error that ends the body early, if any.
\<close>

record response =
  statusCode :: nat
  location :: "string option"
  content_length :: "string option"
  body :: "string list"
  body_error :: "string option"

datatype get_outcome = RequestError string | Response response

text \<open>
  An archive, as the unpacking libraries read it: the entries in archive order, each a
  path inside the archive and what it is.
\<close>

type_synonym archive_entry = "string \<times> node"

text \<open>
  The environment of a run. \<open>https_get n u\<close> is the outcome of the request for \<open>u\<close> issued
  after \<open>n\<close> earlier requests, so that a server may answer the same URL differently over
  time; a request that cannot be made or gets no response is a \<open>RequestError\<close>.
  \<open>tar_read\<close> and \<open>zip_read\<close> are the parsers of the \<open>tar\<close> and \<open>adm-zip\<close> libraries: the
  entries they yield from the bytes of a file and the error they raise after them, if any.
  \<open>received_before_open_error\<close> settles a race: when the write stream cannot be opened,
  it is the number of chunks whose \<open>data\<close> event fires before the error of the stream
  destroys the response.
\<close>

record env =
  dirname :: path
  platform :: string
  arch :: string
  https_get :: "nat \<Rightarrow> string option \<Rightarrow> get_outcome"
  received_before_open_error :: nat
  tar_read :: "string \<Rightarrow> archive_entry list \<times> string option"
  zip_read :: "string \<Rightarrow> archive_entry list \<times> string option"

subsection \<open>Numbers\<close>

text \<open>
  A JavaScript number is an IEEE 754 double: \<open>NaN\<close>, an infinity with its sign, or a finite
  value, kept as its sign (\<open>True\<close> for negative; there is a negative zero) and its
  magnitude, a fraction of two natural numbers.
\<close>

datatype number = NaN | Infinity bool | Finite bool nat nat

fun log2floor :: "nat \<Rightarrow> nat" where
  "log2floor n = (if n < 2 then 0 else Suc (log2floor (n div 2)))"

declare log2floor.simps [simp del]

text \<open>The integer part of the binary logarithm of \<open>p / q\<close>, for positive \<open>p\<close> and \<open>q\<close>.\<close>

definition ilog2 :: "nat \<Rightarrow> nat \<Rightarrow> int" where
  "ilog2 p q =
     (let c = int (log2floor p) - int (log2floor q)
      in if (if 0 \<le> c then q * 2 ^ nat c \<le> p else q \<le> p * 2 ^ nat (- c)) then c else c - 1)"

text \<open>\<open>P / Q\<close> rounded to the nearest integer, a tie to the even one.\<close>

definition rne :: "nat \<Rightarrow> nat \<Rightarrow> nat" where
  "rne P Q =
     (let f = P div Q; r = P mod Q
      in if 2 * r < Q then f else if Q < 2 * r then f + 1 else if even f then f else f + 1)"

text \<open>
  The double nearest to \<open>p / q\<close> (round to nearest, ties to even): 53 significant bits,
  no bit below the one of weight 2 to the power -1074, and an infinity from 2 to the power
  1024 on.
\<close>

definition round_double :: "bool \<Rightarrow> nat \<Rightarrow> nat \<Rightarrow> number" where
  "round_double negative p q =
     (if p = 0 then Finite negative 0 1
      else
        (let k = max (ilog2 p q - 52) (- 1074)
         in if 0 \<le> k then
              (let v = rne p (q * 2 ^ nat k) * 2 ^ nat k
               in if 2 ^ 1024 \<le> v then Infinity negative else Finite negative v 1)
            else Finite negative (rne (p * 2 ^ nat (- k)) q) (2 ^ nat (- k))))"

text \<open>\<open>x / y\<close> and \<open>x * y\<close>\<close>

fun js_div :: "number \<Rightarrow> number \<Rightarrow> number" where
  "js_div NaN y = NaN"
| "js_div x NaN = NaN"
| "js_div (Infinity s) (Infinity s') = NaN"
| "js_div (Infinity s) (Finite s' p' q') = Infinity (s \<noteq> s')"
| "js_div (Finite s p q) (Infinity s') = Finite (s \<noteq> s') 0 1"
| "js_div (Finite s p q) (Finite s' p' q') =
     (if p' = 0 then (if p = 0 then NaN else Infinity (s \<noteq> s'))
      else round_double (s \<noteq> s') (p * q') (q * p'))"

fun js_mul :: "number \<Rightarrow> number \<Rightarrow> number" where
  "js_mul NaN y = NaN"
| "js_mul x NaN = NaN"
| "js_mul (Infinity s) (Infinity s') = Infinity (s \<noteq> s')"
| "js_mul (Infinity s) (Finite s' p' q') = (if p' = 0 then NaN else Infinity (s \<noteq> s'))"
| "js_mul (Finite s p q) (Infinity s') = (if p = 0 then NaN else Infinity (s \<noteq> s'))"
| "js_mul (Finite s p q) (Finite s' p' q') = round_double (s \<noteq> s') (p * p') (q * q')"

text \<open>\<open>x + n\<close> for the length \<open>n\<close> of a chunk.\<close>

fun add_length :: "number \<Rightarrow> nat \<Rightarrow> number" where
  "add_length NaN n = NaN"
| "add_length (Infinity s) n = Infinity s"
| "add_length (Finite s p q) n =
     (if \<not> s then round_double False (p + n * q) q
      else if n * q < p then round_double True (p - n * q) q
      else round_double False (n * q - p) q)"

text \<open>
  \<open>parseInt(s, 10)\<close> on a header value: leading white space is skipped, then an optional
  sign, then the longest run of decimal digits, whose value is rounded to a double; no
  digit gives \<open>NaN\<close>. A header that is absent is the value \<open>undefined\<close>, which \<open>parseInt\<close>
  reads as the string \<open>undefined\<close>.
\<close>

definition is_white_space :: "char \<Rightarrow> bool" where
  "is_white_space c =
     (c \<in> set [CHR 0x09, CHR 0x0A, CHR 0x0B, CHR 0x0C, CHR 0x0D, CHR 0x20, CHR 0xA0])"

definition is_digit :: "char \<Rightarrow> bool" where
  "is_digit c = (c \<in> set ''0123456789'')"

definition digit_value :: "char \<Rightarrow> nat" where
  "digit_value c = length (takeWhile (\<lambda>d. d \<noteq> c) ''0123456789'')"

definition digits_value :: "string \<Rightarrow> nat" where
  "digits_value ds = foldl (\<lambda>n c. 10 * n + digit_value c) 0 ds"

definition parseInt :: "string option \<Rightarrow> number" where
  "parseInt v =
     (let s = dropWhile is_white_space (template v);
          negative = (s \<noteq> [] \<and> hd s = CHR ''-'');
          s1 = (if s \<noteq> [] \<and> (hd s = CHR ''-'' \<or> hd s = CHR ''+'') then tl s else s);
          ds = takeWhile is_digit s1
      in if ds = [] then NaN else round_double negative (digits_value ds) 1)"

text \<open>
  The text of a double of 10 to the power 21 or more, whose value is the integer \<open>x\<close>: the fewest
  digits that still round to \<open>x\<close> (the nearest such number, the even one on a tie), in
  exponent notation.
\<close>

definition rounds_to :: "nat \<Rightarrow> nat \<Rightarrow> bool" where
  "rounds_to v x = (round_double False v 1 = Finite False x 1)"

definition digits_for :: "nat \<Rightarrow> nat \<Rightarrow> nat option" where
  "digits_for x k =
     (let scale = 10 ^ (length (decimal x) - k); lo = x div scale; hi = lo + 1
      in if rounds_to (lo * scale) x \<and> rounds_to (hi * scale) x then
           (if x - lo * scale < hi * scale - x then Some lo
            else if hi * scale - x < x - lo * scale then Some hi
            else if even lo then Some lo else Some hi)
         else if rounds_to (lo * scale) x then Some lo
         else if rounds_to (hi * scale) x then Some hi
         else None)"

definition exponent_text :: "nat \<Rightarrow> string" where
  "exponent_text x =
     (case List.find (\<lambda>k. digits_for x k \<noteq> None) [1..<18] of
        None \<Rightarrow> decimal x
      | Some k \<Rightarrow>
          (case digits_for x k of
             None \<Rightarrow> decimal x
           | Some s \<Rightarrow>
               (let carry = (s = 10 ^ k);
                    ds = decimal (if carry then 10 ^ (k - 1) else s);
                    n = (if carry then length (decimal x) + 1 else length (decimal x))
                in take 1 ds @ (if drop 1 ds = [] then [] else ''.'' @ drop 1 ds)
                     @ ''e+'' @ decimal (n - 1))))"

text \<open>
  \<open>x.toFixed(1)\<close>: \<open>NaN\<close> and the infinities print as their names; a finite value below
  10 to the power 21 prints with one decimal, the exact value of the double being rounded to the
  nearest tenth (up on a tie).
\<close>

definition toFixed1 :: "number \<Rightarrow> string" where
  "toFixed1 x =
     (case x of
        NaN \<Rightarrow> ''NaN''
      | Infinity s \<Rightarrow> (if s then ''-'' else []) @ ''Infinity''
      | Finite s p q \<Rightarrow>
          if 10 ^ 21 * q \<le> p then (if s then ''-'' else []) @ exponent_text (p div q)
          else
            (let tenths = (20 * p + q) div (2 * q)
             in (if s \<and> p \<noteq> 0 then ''-'' else []) @
                decimal (tenths div 10) @ ''.'' @ decimal (tenths mod 10)))"

text \<open>\<open>((downloadedBytes / totalBytes) * 100).toFixed(1)\<close>\<close>

definition percent :: "number \<Rightarrow> number \<Rightarrow> string" where
  "percent downloadedBytes totalBytes =
     toFixed1 (js_mul (js_div downloadedBytes totalBytes) (Finite False 100 1))"

subsection \<open>download\<close>

text \<open>
  How a promise of the script ends: it is resolved, or rejected with an error, or it is
  left unsettled while nothing more is pending; or the process has been ended by
  \<open>process.exit\<close> with the given code (\<open>downloadAndSetup\<close> only).
\<close>

datatype outcome = Resolved | Rejected js_error | Unsettled | Exited nat

text \<open>
  The \<open>data\<close> handler and the pipeline, chunk by chunk: the handler adds the length of the
  chunk to \<open>downloadedBytes\<close> and writes the progress line; the pipeline appends the chunk
  to the file, when the file is open.
\<close>

fun on_data :: "number \<Rightarrow> number \<Rightarrow> string list \<Rightarrow> bool \<Rightarrow> path \<Rightarrow> world \<Rightarrow> world" where
  "on_data totalBytes downloadedBytes [] opened dest w = w"
| "on_data totalBytes downloadedBytes (chunk # chunks) opened dest w =
     (let downloadedBytes' = add_length downloadedBytes (length chunk);
          w1 = stdout_write ([CHR 0x0D] @ ''Downloading: '' @ percent downloadedBytes' totalBytes @ ''%'') w;
          w2 = (if opened then append_file dest chunk w1 else w1)
      in on_data totalBytes downloadedBytes' chunks opened dest w2)"

text \<open>
  The branch of \<open>download\<close> for a response with status 200. The \<open>data\<close> handler is
  attached to the response whether or not the write stream can be opened: when it cannot,
  the handler still runs for the chunks received before the pipeline is torn down, and
  the pipeline rejects with the error of the stream.
\<close>

definition receive :: "env \<Rightarrow> response \<Rightarrow> path \<Rightarrow> world \<Rightarrow> outcome \<times> world" where
  "receive e r dest w =
     (case createWriteStream dest w of
        (Inl err, w1) \<Rightarrow>
          (Rejected err,
           on_data (parseInt (content_length r)) (Finite False 0 1)
             (take (received_before_open_error e) (body r)) False dest w1)
      | (Inr u, w1) \<Rightarrow>
          (let totalBytes = parseInt (content_length r);
               w2 = on_data totalBytes (Finite False 0 1) (body r) True dest w1
           in case body_error r of
                Some m \<Rightarrow> (Rejected (External m), w2)
              | None \<Rightarrow> (Resolved, console_log (newline @ ''Download completed!'') w2)))"

text \<open>
  \<open>download(url, dest)\<close>: how its promise ends and the world then, or \<open>None\<close> when the
  redirects never end. The URL is an optional string, since the recursive call passes
  \<open>response.headers.location\<close>, which is \<open>undefined\<close> when the header is absent. For a URL
  that is \<open>undefined\<close>, \<open>https.get(undefined, options, cb)\<close> takes its second argument for
  the options and registers no callback: the request is made, a response to it is
  dropped and the promise is left unsettled; an error of the request still rejects it.
\<close>

partial_function (option) download ::
  "env \<Rightarrow> string option \<Rightarrow> path \<Rightarrow> world \<Rightarrow> (outcome \<times> world) option"
where
  "download e url' dest w =
     (case https_get e (length (requests (trace w))) url' of
        RequestError m \<Rightarrow> Some (Rejected (External m), emit (HttpGet url') w)
      | Response r \<Rightarrow>
          if url' = None then
            Some (Unsettled, emit (HttpGet url') w)
          else if statusCode r = 302 \<or> statusCode r = 301 then
            download e (location r) dest (emit (HttpGet url') w)
          else if statusCode r \<noteq> 200 then
            Some (Rejected (DownloadFailed (statusCode r)), emit (HttpGet url') w)
          else
            Some (receive e r dest (emit (HttpGet url') w)))"

declare download.simps [code]

subsection \<open>Extraction\<close>

text \<open>
  Writing one entry below the directory \<open>cwd\<close>: the node is put at \<open>cwd @ rel\<close>, and the
  directories between \<open>cwd\<close> and it are created.
\<close>

definition write_node :: "path \<Rightarrow> path \<Rightarrow> node \<Rightarrow> (path \<rightharpoonup> node) \<Rightarrow> (path \<rightharpoonup> node)" where
  "write_node cwd rel n f =
     (\<lambda>q. if q = cwd @ rel then Some n
          else if prefix cwd q \<and> strict_prefix q (cwd @ rel) \<and> q \<noteq> cwd then Some Dir
          else f q)"

text \<open>
  \<open>tar.extract({ file, cwd, strip })\<close>. The \<open>tar\<close> package is a dependency of the
  script; it is modelled by what it documents: of every entry the first \<open>strip\<close>
  components of the path are removed, and an entry with fewer components is skipped; an
  entry whose remaining path has a \<open>..\<close> component is skipped; an entry whose remaining
  path is empty writes nothing (a directory there is \<open>cwd\<close> itself, anything else is
  refused). Entries are files and directories only.
\<close>

definition stripped :: "nat \<Rightarrow> string \<Rightarrow> path" where
  "stripped strip p = filter (\<lambda>c. c \<noteq> [] \<and> c \<noteq> ''.'') (drop strip (components p))"

definition tar_unpack_entry :: "path \<Rightarrow> nat \<Rightarrow> (path \<rightharpoonup> node) \<Rightarrow> archive_entry \<Rightarrow> (path \<rightharpoonup> node)" where
  "tar_unpack_entry cwd strip f entry =
     (let rel = stripped strip (fst entry)
      in if length (components (fst entry)) < strip then f
         else if ''..'' \<in> set rel then f
         else if rel = [] then f
         else write_node cwd rel (snd entry) f)"

definition tar_extract :: "env \<Rightarrow> path \<Rightarrow> path \<Rightarrow> nat \<Rightarrow> world \<Rightarrow> (js_error + unit) \<times> world" where
  "tar_extract e file cwd strip w =
     (let w1 = emit (TarExtract file cwd strip) w in
      case fs w1 file of
        Some (File c) \<Rightarrow>
          if \<not> is_dir (fs w1) cwd then
            (Inl (External (''ENOTDIR: Cannot cd into '' @ quoted cwd)), w1)
          else
            (case tar_read e c of
               (entries, err) \<Rightarrow>
                 (let w2 = w1\<lparr>fs := foldl (tar_unpack_entry cwd strip) (fs w1) entries\<rparr>
                  in case err of None \<Rightarrow> (Inr (), w2) | Some m \<Rightarrow> (Inl (External m), w2)))
      | _ \<Rightarrow> (Inl (External (''ENOENT: no such file or directory, open '' @ quoted file)), w1))"

text \<open>
  \<open>new AdmZip(zipPath)\<close> followed by \<open>extractAllTo(destDir, overwrite)\<close>, again by what
  the package documents: every entry is written below the target, at its normalized path
  (a \<open>..\<close> cannot leave the target).
\<close>

definition zip_unpack_entry :: "path \<Rightarrow> (path \<rightharpoonup> node) \<Rightarrow> archive_entry \<Rightarrow> (path \<rightharpoonup> node)" where
  "zip_unpack_entry target f entry =
     (let rel = normalize_acc [] (components (fst entry))
      in if rel = [] then f else write_node target rel (snd entry) f)"

definition extractAllTo :: "env \<Rightarrow> path \<Rightarrow> path \<Rightarrow> bool \<Rightarrow> world \<Rightarrow> (js_error + unit) \<times> world" where
  "extractAllTo e file target overwrite w =
     (let w1 = emit (ExtractAllTo file target overwrite) w in
      case fs w1 file of
        Some (File c) \<Rightarrow>
          (case zip_read e c of
             (entries, err) \<Rightarrow>
               (let w2 = w1\<lparr>fs := foldl (zip_unpack_entry target) (fs w1) entries\<rparr>
                in case err of None \<Rightarrow> (Inr (), w2) | Some m \<Rightarrow> (Inl (External m), w2)))
      | _ \<Rightarrow> (Inl (External ''Invalid filename''), w1))"

definition extractTarGz :: "env \<Rightarrow> path \<Rightarrow> path \<Rightarrow> world \<Rightarrow> (js_error + unit) \<times> world" where
  "extractTarGz e tarPath destDir w =
     (let w1 = console_log (''Extracting tar.gz to '' @ path_string destDir @ ''...'') w in
      case mkdir destDir w1 of
        (Inl err, w2) \<Rightarrow> (Inl err, w2)
      | (Inr u, w2) \<Rightarrow>
          (case tar_extract e tarPath destDir 1 w2 of
             (Inl err, w3) \<Rightarrow> (Inl err, w3)
           | (Inr u, w3) \<Rightarrow> (Inr (), console_log ''Extraction completed!'' w3)))"

definition extractZip :: "env \<Rightarrow> path \<Rightarrow> path \<Rightarrow> world \<Rightarrow> (js_error + unit) \<times> world" where
  "extractZip e zipPath destDir w =
     (let w1 = console_log (''Extracting zip to '' @ path_string destDir @ ''...'') w in
      case mkdir destDir w1 of
        (Inl err, w2) \<Rightarrow> (Inl err, w2)
      | (Inr u, w2) \<Rightarrow>
          (case extractAllTo e zipPath destDir True w2 of
             (Inl err, w3) \<Rightarrow> (Inl err, w3)
           | (Inr u, w3) \<Rightarrow> (Inr (), console_log ''Extraction completed!'' w3)))"

subsection \<open>downloadAndSetup and the main logic\<close>

fun join :: "string \<Rightarrow> string list \<Rightarrow> string" where
  "join sep [] = []"
| "join sep [x] = x"
| "join sep (x # xs) = x @ sep @ join sep xs"

definition check_mark :: string where
  "check_mark = [CHR 0xE2, CHR 0x9C, CHR 0x85]"

definition cross_mark :: string where
  "cross_mark = [CHR 0xE2, CHR 0x9D, CHR 0x8C]"

definition resourcesDir :: "env \<Rightarrow> string \<Rightarrow> path" where
  "resourcesDir e platformKey = path_join (dirname e) [''..'', ''resources'', ''python'', platformKey]"

definition archivePath :: "env \<Rightarrow> string \<Rightarrow> string \<Rightarrow> path" where
  "archivePath e platformKey filename = path_join (resourcesDir e platformKey) [filename]"

definition pythonDir :: "env \<Rightarrow> string \<Rightarrow> path" where
  "pythonDir e platformKey = path_join (resourcesDir e platformKey) [''python'']"

text \<open>The \<open>if\<close>/\<open>else if\<close>/\<open>else\<close> on the archive type.\<close>

definition extract_archive :: "env \<Rightarrow> string option \<Rightarrow> path \<Rightarrow> path \<Rightarrow> world \<Rightarrow> (js_error + unit) \<times> world" where
  "extract_archive e type' archive dir w =
     (if type' = Some ''tar.gz'' then extractTarGz e archive dir w
      else if type' = Some ''zip'' then extractZip e archive dir w
      else (Inl (UnsupportedArchiveType type'), w))"

text \<open>The part of \<open>downloadAndSetup\<close> after the download: extraction, then cleanup.\<close>

definition extract_and_clean ::
  "env \<Rightarrow> string \<Rightarrow> string option \<Rightarrow> string \<Rightarrow> world \<Rightarrow> outcome \<times> world" where
  "extract_and_clean e platformKey type' filename w =
     (case extract_archive e type' (archivePath e platformKey filename) (pythonDir e platformKey) w of
        (Inl err, w1) \<Rightarrow> (Rejected err, w1)
      | (Inr u, w1) \<Rightarrow>
          (case unlink (archivePath e platformKey filename) w1 of
             (Inl err, w2) \<Rightarrow> (Rejected err, w2)
           | (Inr u, w2) \<Rightarrow>
               (Resolved,
                console_log (newline @ check_mark @ '' Python setup completed at: ''
                               @ path_string (pythonDir e platformKey))
                  (console_log (''Cleaned up '' @ template type' @ '' file'') w2))))"

text \<open>The three lines logged before the download starts.\<close>

definition announce :: "string \<Rightarrow> string option \<Rightarrow> string option \<Rightarrow> world \<Rightarrow> world" where
  "announce platformKey url' type' w =
     console_log (''Type: '' @ template type')
       (console_log (''URL: '' @ template url')
         (console_log (''Downloading Python for '' @ platformKey @ ''...'') w))"

definition downloadAndSetup :: "env \<Rightarrow> string \<Rightarrow> world \<Rightarrow> (outcome \<times> world) option" where
  "downloadAndSetup e platformKey w =
     (case get_property platformKey of
        Undefined \<Rightarrow>
          Some (Exited 1,
                console_error (''Supported platforms: '' @ join '', '' (map fst PLATFORMS))
                  (console_error (''Unsupported platform: '' @ platformKey) w))
      | Object url' type' \<Rightarrow>
          (case basename url' of
             Inl err \<Rightarrow> Some (Rejected err, w)
           | Inr filename \<Rightarrow>
               if existsSync (pythonDir e platformKey) w then
                 Some (Resolved,
                       console_log (''Python already exists at ''
                                      @ path_string (pythonDir e platformKey)) w)
               else
                 (case mkdir (resourcesDir e platformKey) (announce platformKey url' type' w) of
                    (Inl err, w2) \<Rightarrow> Some (Rejected err, w2)
                  | (Inr u, w2) \<Rightarrow>
                      (case download e url' (archivePath e platformKey filename) w2 of
                         None \<Rightarrow> None
                       | Some (Resolved, w3) \<Rightarrow>
                           Some (extract_and_clean e platformKey type' filename w3)
                       | Some (o', w3) \<Rightarrow> Some (o', w3)))))"

text \<open>
  \<open>process.argv[2] || getPlatformKey()\<close>: a missing or empty argument is falsy.
\<close>

definition targetPlatform :: "env \<Rightarrow> string list \<Rightarrow> string" where
  "targetPlatform e argv =
     (if length argv > 2 \<and> argv ! 2 \<noteq> [] then argv ! 2
      else getPlatformKey (platform e) (arch e))"

text \<open>
  The main logic: the exit code of the process and the world it leaves, or \<open>None\<close> when
  the process never ends (the redirects never end). A process that runs to its end exits
  with code 0; so does one whose promise is left unsettled, once nothing is pending.
\<close>

definition main :: "env \<Rightarrow> string list \<Rightarrow> world \<Rightarrow> (nat \<times> world) option" where
  "main e argv w =
     (let w1 = console_log (''Setting up Python for platform: '' @ targetPlatform e argv) w
      in case downloadAndSetup e (targetPlatform e argv) w1 of
           None \<Rightarrow> None
         | Some (Exited code, w2) \<Rightarrow> Some (code, w2)
         | Some (Resolved, w2) \<Rightarrow> Some (0, w2)
         | Some (Unsettled, w2) \<Rightarrow> Some (0, w2)
         | Some (Rejected err, w2) \<Rightarrow>
             Some (1, console_error (cross_mark @ '' Setup failed: '' @ message err) w2))"

section \<open>Notions used in the statements\<close>

text \<open>A name that is a single path component: not empty, not \<open>.\<close> or \<open>..\<close>, without \<open>/\<close>.\<close>

definition plain :: "string \<Rightarrow> bool" where
  "plain s = (s \<noteq> [] \<and> s \<noteq> ''.'' \<and> s \<noteq> ''..'' \<and> CHR ''/'' \<notin> set s)"

text \<open>
  The chain of requests that \<open>download\<close> issues from a URL: \<open>hop e i u k\<close> is the URL and
  the outcome of the request made after following \<open>k\<close> redirects, when the first request
  is the one with index \<open>i\<close>. A chain that has ended stays at its last request. The chain
  \<open>stops\<close> at a request for \<open>undefined\<close> and at an outcome that is not a response with
  status 301 or 302; the promise \<open>settles\<close> at a request that fails and at a handled
  response with another status.
\<close>

definition is_redirect :: "get_outcome \<Rightarrow> bool" where
  "is_redirect out =
     (case out of Response r \<Rightarrow> statusCode r = 301 \<or> statusCode r = 302 | RequestError m \<Rightarrow> False)"

fun hop :: "env \<Rightarrow> nat \<Rightarrow> string option \<Rightarrow> nat \<Rightarrow> string option \<times> get_outcome" where
  "hop e i u 0 = (u, https_get e i u)"
| "hop e i u (Suc k) =
     (if u \<noteq> None \<and> is_redirect (https_get e i u) then
        (case https_get e i u of
           Response r \<Rightarrow> hop e (Suc i) (location r) k
         | RequestError m \<Rightarrow> (u, RequestError m))
      else (u, https_get e i u))"

definition stops :: "string option \<times> get_outcome \<Rightarrow> bool" where
  "stops h = (fst h = None \<or> \<not> is_redirect (snd h))"

definition settles :: "string option \<times> get_outcome \<Rightarrow> bool" where
  "settles h =
     (case snd h of RequestError m \<Rightarrow> True | Response r \<Rightarrow> fst h \<noteq> None \<and> \<not> is_redirect (snd h))"

text \<open>
  The chunks whose \<open>data\<close> event fires during a download to \<open>dest\<close>: all of the body when
  the write stream opens, else those received before its error is noticed. Then the values
  of \<open>downloadedBytes\<close> after each chunk, and the progress line for one.
\<close>

definition received :: "env \<Rightarrow> response \<Rightarrow> path \<Rightarrow> world \<Rightarrow> string list" where
  "received e r dest w =
     (case fst (createWriteStream dest w) of
        Inl err \<Rightarrow> take (received_before_open_error e) (body r)
      | Inr u \<Rightarrow> body r)"

fun running_totals :: "number \<Rightarrow> string list \<Rightarrow> number list" where
  "running_totals d [] = []"
| "running_totals d (chunk # chunks) =
     add_length d (length chunk) # running_totals (add_length d (length chunk)) chunks"

definition progress_line :: "number \<Rightarrow> number \<Rightarrow> event" where
  "progress_line totalBytes d = Stdout ([CHR 0x0D] @ ''Downloading: '' @ percent d totalBytes @ ''%'')"

text \<open>
  An archive whose entries do not overwrite each other when \<open>strip\<close> components are
  removed: the remaining paths are pairwise different, and the remaining path of an entry
  that is not a directory is not a proper prefix of another one.
\<close>

definition unambiguous :: "nat \<Rightarrow> archive_entry list \<Rightarrow> bool" where
  "unambiguous strip entries =
     (distinct (map (\<lambda>entry. stripped strip (fst entry)) entries) \<and>
      (\<forall>entry \<in> set entries. \<forall>other \<in> set entries.
         snd entry = Dir \<or> \<not> strict_prefix (stripped strip (fst entry)) (stripped strip (fst other))))"

subsection \<open>Concrete runs\<close>

definition moved_response :: response where
  "moved_response =
     \<lparr>statusCode = 302, location = Some ''https://objects.example.org/python.tar.gz'',
      content_length = None, body = [], body_error = None\<rparr>"

definition ok_response :: "string option \<Rightarrow> response" where
  "ok_response len =
     \<lparr>statusCode = 200, location = None, content_length = len, body = [''ab'', ''cd''],
      body_error = None\<rparr>"

definition not_found_response :: response where
  "not_found_response =
     \<lparr>statusCode = 404, location = None, content_length = Some ''9'', body = [''Not Found''],
      body_error = None\<rparr>"

definition redirect_then_ok :: "nat \<Rightarrow> string option \<Rightarrow> get_outcome" where
  "redirect_then_ok n u =
     (if n = 0 then Response moved_response else Response (ok_response (Some ''4'')))"

definition ok_without_length :: "nat \<Rightarrow> string option \<Rightarrow> get_outcome" where
  "ok_without_length n u = Response (ok_response None)"

definition always_moved :: "nat \<Rightarrow> string option \<Rightarrow> get_outcome" where
  "always_moved n u = Response moved_response"

definition lost_response :: response where
  "lost_response =
     \<lparr>statusCode = 302, location = None, content_length = None, body = [], body_error = None\<rparr>"

text \<open>A redirect without a \<open>Location\<close> header; the request that follows gets a 200.\<close>

definition moved_nowhere :: "nat \<Rightarrow> string option \<Rightarrow> get_outcome" where
  "moved_nowhere n u = (if n = 0 then Response lost_response else Response (ok_response None))"

text \<open>A redirect, and then the connection is reset.\<close>

definition redirect_then_reset :: "nat \<Rightarrow> string option \<Rightarrow> get_outcome" where
  "redirect_then_reset n u = (if n = 0 then Response moved_response else RequestError ''read ECONNRESET'')"

definition always_not_found :: "nat \<Rightarrow> string option \<Rightarrow> get_outcome" where
  "always_not_found n u = Response not_found_response"

text \<open>A server that answers the first \<open>n\<close> requests with a redirect to the URL requested.\<close>

definition redirect_to_self :: "nat \<Rightarrow> nat \<Rightarrow> string option \<Rightarrow> get_outcome" where
  "redirect_to_self n i u =
     Response \<lparr>statusCode = (if i < n then 302 else 404), location = u, content_length = None,
               body = [], body_error = None\<rparr>"

definition example_entries :: "archive_entry list" where
  "example_entries =
     [(''python/'', Dir), (''python/bin/python3'', File ''ELF''), (''python/lib/os.py'', File ''import'')]"

definition example_env :: "(nat \<Rightarrow> string option \<Rightarrow> get_outcome) \<Rightarrow> string option \<Rightarrow> env" where
  "example_env net err =
     \<lparr>dirname = [''repo'', ''scripts''], platform = ''linux'', arch = ''x64'', https_get = net,
      received_before_open_error = 1,
      tar_read = (\<lambda>c. (example_entries, err)), zip_read = (\<lambda>c. (example_entries, err))\<rparr>"

definition empty_world :: world where
  "empty_world = \<lparr>fs = Map.empty, trace = []\<rparr>"

definition installed_world :: "string \<Rightarrow> world" where
  "installed_world platformKey =
     \<lparr>fs = [[''repo'', ''resources'', ''python'', platformKey, ''python''] \<mapsto> Dir], trace = []\<rparr>"

definition archive_world :: world where
  "archive_world = \<lparr>fs = [[''repo'', ''python.tar.gz''] \<mapsto> File ''gz''], trace = []\<rparr>"

definition linux_config :: platform_config where
  "linux_config = \<lparr>url = standalone_url ''x86_64-unknown-linux-gnu'', type = ''tar.gz''\<rparr>"

definition linux_filename :: string where
  "linux_filename = ''cpython-3.11.9+20240726-x86_64-unknown-linux-gnu-install_only.tar.gz''"

definition linux_archive :: path where
  "linux_archive = [''repo'', ''resources'', ''python'', ''linux-x64'', linux_filename]"

definition linux_pythonDir :: path where
  "linux_pythonDir = [''repo'', ''resources'', ''python'', ''linux-x64'', ''python'']"

text \<open>
  A run in which the tar reader fails after the first two entries of the archive, and the
  zip reader rejects the file before any entry.
\<close>

definition truncated_env :: env where
  "truncated_env =
     (example_env always_not_found None)
       \<lparr>tar_read := (\<lambda>c. (take 2 example_entries, Some ''unexpected end of file'')),
        zip_read := (\<lambda>c. ([], Some ''Invalid or unsupported zip format. No END header found''))\<rparr>"

definition downloaded_world :: world where
  "downloaded_world =
     \<lparr>fs = [[''repo''] \<mapsto> Dir, [''repo'', ''resources''] \<mapsto> Dir,
            [''repo'', ''resources'', ''python''] \<mapsto> Dir,
            [''repo'', ''resources'', ''python'', ''linux-x64''] \<mapsto> Dir,
            linux_archive \<mapsto> File ''abcd''],
      trace = []\<rparr>"

definition windows_config :: platform_config where
  "windows_config =
     \<lparr>url = ''https://www.python.org/ftp/python/'' @ PYTHON_OFFICIAL_VERSION @ ''/python-''
              @ PYTHON_OFFICIAL_VERSION @ ''-embed-arm64.zip'',
      type = ''zip''\<rparr>"

definition windows_archive :: path where
  "windows_archive =
     [''repo'', ''resources'', ''python'', ''win32-arm64'', ''python-3.11.9-embed-arm64.zip'']"

definition windows_pythonDir :: path where
  "windows_pythonDir = [''repo'', ''resources'', ''python'', ''win32-arm64'', ''python'']"

definition windows_world :: world where
  "windows_world =
     \<lparr>fs = [[''repo''] \<mapsto> Dir, [''repo'', ''resources''] \<mapsto> Dir,
            [''repo'', ''resources'', ''python''] \<mapsto> Dir,
            [''repo'', ''resources'', ''python'', ''win32-arm64''] \<mapsto> Dir,
            windows_archive \<mapsto> File ''PK''],
      trace = []\<rparr>"

definition example_argv :: "string \<Rightarrow> string list" where
  "example_argv platformKey = [''node'', ''/repo/scripts/download-python.js'', platformKey]"


section \<open>Basic facts\<close>

lemma trace_emit [simp]: "trace (emit ev w) = trace w @ [ev]"
  by (simp add: emit_def)

lemma fs_emit [simp]: "fs (emit ev w) = fs w"
  by (simp add: emit_def)

lemma components_acc_plain: "CHR ''/'' \<notin> set s \<Longrightarrow> components_acc cur s = [rev cur @ s]"
  by (induction s arbitrary: cur) auto

lemma components_plain: "CHR ''/'' \<notin> set s \<Longrightarrow> components s = [s]"
  by (simp add: components_def components_acc_plain)

lemma path_join_plain: "plain s \<Longrightarrow> path_join base [s] = base @ [s]"
  by (simp add: path_join_def plain_def components_plain)

lemma pythonDir_eq: "pythonDir e k = resourcesDir e k @ [''python'']"
  by (simp add: pythonDir_def path_join_plain plain_def)

lemma archivePath_eq: "plain f \<Longrightarrow> archivePath e k f = resourcesDir e k @ [f]"
  by (simp add: archivePath_def path_join_plain)

lemmas table_defs =
  PLATFORMS_def standalone_url_def RELEASE_TAG_def PYTHON_VERSION_def PYTHON_OFFICIAL_VERSION_def

lemma PLATFORMS_entry:
  assumes "(k, c) \<in> set PLATFORMS"
  shows "url c \<noteq> []" and "take 8 (url c) = ''https://''" and "type c = ''tar.gz'' \<or> type c = ''zip''"
    and "map_of PLATFORMS k = Some c" and "k \<noteq> []"
  using assms by (auto simp: table_defs)

lemma PLATFORMS_basename:
  assumes "(k, c) \<in> set PLATFORMS"
  shows "\<exists>f. basename (Some (url c)) = Inr f \<and> plain f \<and> f \<noteq> ''python''"
  using assms by (auto simp: table_defs basename_def components_def plain_def)

lemma get_property_entry:
  "(k, c) \<in> set PLATFORMS \<Longrightarrow> get_property k = Object (Some (url c)) (Some (type c))"
  by (simp add: get_property_def PLATFORMS_entry(4))

lemma mkdir_error: "mkdir p w = (Inl err, w') \<Longrightarrow> \<exists>m. err = External m"
  by (auto simp: mkdir_def Let_def split: if_splits)

lemma unlink_error: "unlink p w = (Inl err, w') \<Longrightarrow> \<exists>m. err = External m"
  by (auto simp: unlink_def Let_def split: option.splits node.splits)

lemma createWriteStream_error: "createWriteStream p w = (Inl err, w') \<Longrightarrow> \<exists>m. err = External m"
  by (auto simp: createWriteStream_def Let_def split: if_splits)

lemma receive_error: "receive e r p w = (Rejected err, w') \<Longrightarrow> \<exists>m. err = External m"
  by (auto simp: receive_def Let_def split: prod.splits sum.splits option.splits
      dest: createWriteStream_error)

lemma receive_settled: "fst (receive e r p w) = Resolved \<or> (\<exists>err. fst (receive e r p w) = Rejected err)"
  by (auto simp: receive_def Let_def split: prod.splits sum.splits option.splits)

lemma tar_extract_error: "tar_extract e f c n w = (Inl err, w') \<Longrightarrow> \<exists>m. err = External m"
  by (auto simp: tar_extract_def Let_def split: if_splits prod.splits option.splits node.splits)

lemma extractAllTo_error: "extractAllTo e f c b w = (Inl err, w') \<Longrightarrow> \<exists>m. err = External m"
  by (auto simp: extractAllTo_def Let_def split: if_splits prod.splits option.splits node.splits)

lemma extractTarGz_error: "extractTarGz e f c w = (Inl err, w') \<Longrightarrow> \<exists>m. err = External m"
  by (auto simp: extractTarGz_def Let_def split: prod.splits sum.splits
      dest: mkdir_error tar_extract_error)

lemma extractZip_error: "extractZip e f c w = (Inl err, w') \<Longrightarrow> \<exists>m. err = External m"
  by (auto simp: extractZip_def Let_def split: prod.splits sum.splits
      dest: mkdir_error extractAllTo_error)

lemma download_error:
  assumes "download e u dest w = Some (Rejected err, w')"
  shows "(\<exists>m. err = External m) \<or> (\<exists>n. err = DownloadFailed n)"
proof -
  have "\<forall>err w'. y = (Rejected err, w') \<longrightarrow> (\<exists>m. err = External m) \<or> (\<exists>n. err = DownloadFailed n)"
    if "download e u dest w = Some y" for y
    by (rule download.raw_induct[rotated, OF that,
          where P = "\<lambda>e u dest w y. \<forall>err w'. y = (Rejected err, w') \<longrightarrow>
                       (\<exists>m. err = External m) \<or> (\<exists>n. err = DownloadFailed n)"])
       (auto split: get_outcome.splits if_splits dest: receive_error)
  with assms show ?thesis by blast
qed

lemma extract_and_clean_error:
  assumes "extract_and_clean e k t f w = (Rejected err, w')" and "t = Some ''tar.gz'' \<or> t = Some ''zip''"
  shows "\<exists>m. err = External m"
  using assms
  by (auto simp: extract_and_clean_def extract_archive_def split: prod.splits sum.splits if_splits
      dest: extractTarGz_error extractZip_error unlink_error)

lemma downloadAndSetup_error:
  assumes "(k, c) \<in> set PLATFORMS" and "downloadAndSetup e k w = Some (Rejected err, w')"
  shows "(\<exists>m. err = External m) \<or> (\<exists>n. err = DownloadFailed n)"
proof -
  obtain f where f: "basename (Some (url c)) = Inr f"
    using PLATFORMS_basename[OF assms(1)] by blast
  show ?thesis
    using assms(2) PLATFORMS_entry(3)[OF assms(1)]
    by (auto simp: downloadAndSetup_def get_property_entry[OF assms(1)] f
        split: if_splits prod.splits sum.splits option.splits outcome.splits
        dest: mkdir_error download_error extract_and_clean_error)
qed

text \<open>
  C9. Every entry of the platform table has a non-empty URL that starts with \<open>https://\<close>
  and an archive type that is \<open>tar.gz\<close> or \<open>zip\<close>. Hence, for a key of the table, the
  property read yields that entry, the dispatch on the archive type takes one of its two
  extraction branches, and \<open>downloadAndSetup\<close> never rejects with the error
  \<open>Unsupported archive type\<close>.
\<close>

theorem platform_entries_recognized:
  assumes "(k, c) \<in> set PLATFORMS"
  shows "url c \<noteq> [] \<and> take 8 (url c) = ''https://'' \<and> (type c = ''tar.gz'' \<or> type c = ''zip'')
         \<and> get_property k = Object (Some (url c)) (Some (type c))
         \<and> (extract_archive e (Some (type c)) a d w = extractTarGz e a d w
              \<or> extract_archive e (Some (type c)) a d w = extractZip e a d w)
         \<and> downloadAndSetup e k w \<noteq> Some (Rejected (UnsupportedArchiveType t), w')"
proof -
  have "downloadAndSetup e k w \<noteq> Some (Rejected (UnsupportedArchiveType t), w')"
    using downloadAndSetup_error[OF assms, of e w "UnsupportedArchiveType t" w'] by auto
  moreover have "extract_archive e (Some (type c)) a d w = extractTarGz e a d w
              \<or> extract_archive e (Some (type c)) a d w = extractZip e a d w"
    using PLATFORMS_entry(3)[OF assms] by (auto simp: extract_archive_def)
  ultimately show ?thesis
    using PLATFORMS_entry(1-3)[OF assms] get_property_entry[OF assms] by simp
qed

theorem platform_entries_recognized_witness:
  "(''win32-arm64'', \<lparr>url = ''https://www.python.org/ftp/python/3.11.9/python-3.11.9-embed-arm64.zip'', type = ''zip''\<rparr>)
     \<in> set PLATFORMS
   \<and> get_property ''win32-arm64''
       = Object (Some ''https://www.python.org/ftp/python/3.11.9/python-3.11.9-embed-arm64.zip'') (Some ''zip'')
   \<and> extract_archive (example_env redirect_then_ok None) (Some ''zip'') [''a.zip''] [''python''] empty_world
       = extractZip (example_env redirect_then_ok None) [''a.zip''] [''python''] empty_world
   \<and> downloadAndSetup (example_env redirect_then_ok None) ''win32-arm64'' empty_world
       \<noteq> Some (Rejected (UnsupportedArchiveType (Some ''zip'')), empty_world)"
proof -
  have mem: "(''win32-arm64'', \<lparr>url = ''https://www.python.org/ftp/python/3.11.9/python-3.11.9-embed-arm64.zip'', type = ''zip''\<rparr>)
     \<in> set PLATFORMS"
    by (simp add: table_defs)
  show ?thesis
    using mem platform_entries_recognized[OF mem, of "example_env redirect_then_ok None" "[''a.zip'']"
        "[''python'']" empty_world "Some ''zip''" empty_world]
    by (simp add: extract_archive_def)
qed

lemma skip_when_present:
  assumes "(k, c) \<in> set PLATFORMS" and "existsSync (pythonDir e k) w"
  shows "downloadAndSetup e k w
           = Some (Resolved, console_log (''Python already exists at '' @ path_string (pythonDir e k)) w)"
proof -
  obtain f where f: "basename (Some (url c)) = Inr f"
    using PLATFORMS_basename[OF assms(1)] by blast
  show ?thesis
    using assms(2) by (simp add: downloadAndSetup_def get_property_entry[OF assms(1)] f)
qed

text \<open>
  C1 (amended). For every key of the platform table whose destination directory
  \<open>resources/python/<key>/python\<close> exists, \<open>downloadAndSetup\<close> resolves after logging that
  Python already exists, and the process exits with code 0; the file system is the one
  it started with, and the only events of the run are the two lines on standard output,
  so no request is sent and no file system call is made.
\<close>

theorem existing_directory_skips:
  assumes "(k, c) \<in> set PLATFORMS" and "targetPlatform e argv = k"
    and "existsSync (pythonDir e k) w"
  shows "\<exists>w'. main e argv w = Some (0, w') \<and> fs w' = fs w
           \<and> trace w' = trace w @
                [Stdout (''Setting up Python for platform: '' @ k @ newline),
                 Stdout (''Python already exists at '' @ path_string (pythonDir e k) @ newline)]"
proof -
  let ?w1 = "console_log (''Setting up Python for platform: '' @ k) w"
  have "existsSync (pythonDir e k) ?w1"
    using assms(3) by (simp add: existsSync_def console_log_def)
  from skip_when_present[OF assms(1) this] show ?thesis
    by (simp add: main_def assms(2) console_log_def)
qed

theorem existing_directory_skips_witness:
  "(''linux-x64'', \<lparr>url = standalone_url ''x86_64-unknown-linux-gnu'', type = ''tar.gz''\<rparr>) \<in> set PLATFORMS
   \<and> targetPlatform (example_env always_not_found None) (example_argv ''linux-x64'') = ''linux-x64''
   \<and> existsSync (pythonDir (example_env always_not_found None) ''linux-x64'') (installed_world ''linux-x64'')
   \<and> (\<exists>w'. main (example_env always_not_found None) (example_argv ''linux-x64'') (installed_world ''linux-x64'')
              = Some (0, w')
         \<and> fs w' = fs (installed_world ''linux-x64'')
         \<and> trace w' =
             [Stdout (''Setting up Python for platform: linux-x64'' @ newline),
              Stdout (''Python already exists at /repo/resources/python/linux-x64/python'' @ newline)])"
proof -
  have mem: "(''linux-x64'', \<lparr>url = standalone_url ''x86_64-unknown-linux-gnu'', type = ''tar.gz''\<rparr>) \<in> set PLATFORMS"
    by (simp add: PLATFORMS_def)
  have tgt: "targetPlatform (example_env always_not_found None) (example_argv ''linux-x64'') = ''linux-x64''"
    by (simp add: targetPlatform_def example_argv_def)
  have dir: "pythonDir (example_env always_not_found None) ''linux-x64''
               = [''repo'', ''resources'', ''python'', ''linux-x64'', ''python'']"
    by (simp add: pythonDir_def resourcesDir_def path_join_def components_def example_env_def)
  have ex: "existsSync (pythonDir (example_env always_not_found None) ''linux-x64'') (installed_world ''linux-x64'')"
    by (simp add: dir existsSync_def installed_world_def)
  show ?thesis
    using mem tgt ex existing_directory_skips[OF mem tgt ex]
    by (simp add: dir path_string_def installed_world_def)
qed

text \<open>
  C1, as stated, fails for a key that is not in the table: with the directory
  \<open>resources/python/plan9-x64/python\<close> present, the run for \<open>plan9-x64\<close> exits with code 1.
\<close>

theorem existing_directory_unsupported_key:
  "existsSync (pythonDir (example_env always_not_found None) ''plan9-x64'') (installed_world ''plan9-x64'')
   \<and> map_option fst (main (example_env always_not_found None) (example_argv ''plan9-x64'')
                        (installed_world ''plan9-x64'')) = Some 1"
proof -
  have dir: "pythonDir (example_env always_not_found None) ''plan9-x64''
               = [''repo'', ''resources'', ''python'', ''plan9-x64'', ''python'']"
    by (simp add: pythonDir_def resourcesDir_def path_join_def components_def example_env_def)
  have look: "get_property ''plan9-x64'' = Undefined"
    by (simp add: get_property_def PLATFORMS_def object_prototype_keys_def)
  show ?thesis
    by (simp add: dir existsSync_def installed_world_def main_def targetPlatform_def example_argv_def
        downloadAndSetup_def look)
qed

text \<open>
  A key for which the property read yields \<open>undefined\<close> is reported as unsupported,
  with the list of the supported keys, and the process exits with code 1.
\<close>

lemma undefined_key_reported:
  assumes "get_property k = Undefined"
  shows "downloadAndSetup e k w =
           Some (Exited 1, w\<lparr>trace := trace w @
             [Stderr (''Unsupported platform: '' @ k @ newline),
              Stderr (''Supported platforms: darwin-arm64, darwin-x64, linux-x64, linux-arm64, win32-x64, win32-arm64'' @ newline)]\<rparr>)"
  by (simp add: downloadAndSetup_def assms console_error_def emit_def PLATFORMS_def)

text \<open>
  C2 fails on the code for the keys that \<open>Object.prototype\<close> provides. The key
  \<open>constructor\<close> has no entry in the table, yet the property read yields a truthy object
  without a \<open>url\<close>; \<open>path.basename\<close> throws, and the run ends in the top-level handler:
  exit code 1, with a message that names neither the key nor the supported keys.
\<close>

theorem inherited_key_not_reported:
  "map_of PLATFORMS ''constructor'' = None
   \<and> main e (example_argv ''constructor'') w =
       Some (1, w\<lparr>trace := trace w @
         [Stdout (''Setting up Python for platform: constructor'' @ newline),
          Stderr (cross_mark @ '' Setup failed: The '' @ [CHR 0x22] @ ''path'' @ [CHR 0x22]
                    @ '' argument must be of type string. Received undefined'' @ newline)]\<rparr>)"
proof -
  have look: "get_property ''constructor'' = Object None None"
    by (simp add: get_property_def PLATFORMS_def object_prototype_keys_def)
  show ?thesis
    by (simp add: main_def targetPlatform_def example_argv_def downloadAndSetup_def look
        basename_def console_log_def console_error_def emit_def PLATFORMS_def)
qed


section \<open>The download\<close>

lemma createWriteStream_trace:
  "createWriteStream p w = (res, w') \<Longrightarrow> trace w' = trace w @ [CreateWriteStream p]"
  by (auto simp: createWriteStream_def Let_def split: if_splits)

lemma trace_append_file [simp]: "trace (append_file dest chunk w) = trace w"
  by (simp add: append_file_def)

lemma on_data_trace:
  "trace (on_data t d chunks opened dest w) = trace w @ map (progress_line t) (running_totals d chunks)"
  by (induction chunks arbitrary: d w) (simp_all add: Let_def stdout_write_def progress_line_def)

lemma on_data_fs_closed [simp]: "fs (on_data t d chunks False dest w) = fs w"
  by (induction chunks arbitrary: d w) (simp_all add: Let_def stdout_write_def emit_def)

lemma receive_trace:
  assumes "receive e r dest w = (res, w')"
  shows "prefix (trace w @ [CreateWriteStream dest]) (trace w')"
  using assms unfolding receive_def Let_def
  by (auto split: prod.splits sum.splits option.splits
      simp: console_log_def on_data_trace dest!: createWriteStream_trace)

lemma prefix_snocD: "prefix (xs @ a # ys) zs \<Longrightarrow> prefix (xs @ [a]) zs"
  by (metis append.assoc append_Cons append_Nil append_prefixD)

lemma download_trace:
  assumes "download e u dest w = Some y"
  shows "prefix (trace w @ [HttpGet u]) (trace (snd y))"
  by (rule download.raw_induct[rotated, OF assms,
        where P = "\<lambda>e u dest w y. prefix (trace w @ [HttpGet u]) (trace (snd y))"])
     (fastforce split: get_outcome.splits if_splits dest: receive_trace prefix_snocD append_prefixD)

lemma requests_append [simp]: "requests (xs @ ys) = requests xs @ requests ys"
  by (induction xs rule: requests.induct) simp_all

lemma https_get_example: "https_get (example_env net err) = net"
  by (simp add: example_env_def)

text \<open>
  C3, as stated, fails for a redirect without a \<open>Location\<close> header: the request that
  follows is the one for \<open>undefined\<close>, it is answered with status 200, and yet the download
  neither succeeds nor fails. Its promise is left unsettled and no file is written.
\<close>

theorem redirect_without_location:
  "https_get (example_env moved_nowhere None) 0 (Some ''https://example.org/python.tar.gz'')
     = Response lost_response
   \<and> statusCode lost_response = 302 \<and> location lost_response = None
   \<and> https_get (example_env moved_nowhere None) 1 None = Response (ok_response None)
   \<and> statusCode (ok_response None) = 200
   \<and> download (example_env moved_nowhere None) (Some ''https://example.org/python.tar.gz'')
         [''python.tar.gz''] empty_world
       = Some (Unsettled,
               \<lparr>fs = Map.empty,
                trace = [HttpGet (Some ''https://example.org/python.tar.gz''), HttpGet None]\<rparr>)"
proof -
  have "download (example_env moved_nowhere None) (Some ''https://example.org/python.tar.gz'')
         [''python.tar.gz''] empty_world
       = download (example_env moved_nowhere None) None [''python.tar.gz'']
           (emit (HttpGet (Some ''https://example.org/python.tar.gz'')) empty_world)"
    by (subst download.simps)
       (simp add: https_get_example moved_nowhere_def lost_response_def empty_world_def)
  also have "\<dots> = Some (Unsettled,
               \<lparr>fs = Map.empty,
                trace = [HttpGet (Some ''https://example.org/python.tar.gz''), HttpGet None]\<rparr>)"
    by (subst download.simps)
       (simp add: https_get_example moved_nowhere_def emit_def empty_world_def)
  finally show ?thesis
    by (simp add: https_get_example moved_nowhere_def lost_response_def ok_response_def)
qed

text \<open>
  C3 (amended). When the response to a request has status 301 or 302 and a \<open>Location\<close>
  header, the next request of \<open>download\<close> is the one for the value of that header, and the
  download ends as the outcome of that request has it: it is rejected with the error of
  the request if the request fails, rejected with the status if the status is not 200,
  301 or 302, it is the reception of the body if the status is 200, and it goes on from
  the next \<open>Location\<close> if the response is a redirect again.
\<close>

theorem redirect_is_followed:
  assumes "https_get e (length (requests (trace w))) (Some u) = Response r"
    and "statusCode r = 301 \<or> statusCode r = 302"
    and "location r = Some v"
  shows "(case https_get e (Suc (length (requests (trace w)))) (Some v) of
            RequestError m \<Rightarrow>
              download e (Some u) dest w
                = Some (Rejected (External m),
                        w\<lparr>trace := trace w @ [HttpGet (Some u), HttpGet (Some v)]\<rparr>)
          | Response r' \<Rightarrow>
              if statusCode r' = 301 \<or> statusCode r' = 302 then
                download e (Some u) dest w
                  = download e (location r') dest
                      (w\<lparr>trace := trace w @ [HttpGet (Some u), HttpGet (Some v)]\<rparr>)
              else if statusCode r' \<noteq> 200 then
                download e (Some u) dest w
                  = Some (Rejected (DownloadFailed (statusCode r')),
                          w\<lparr>trace := trace w @ [HttpGet (Some u), HttpGet (Some v)]\<rparr>)
              else
                download e (Some u) dest w
                  = Some (receive e r' dest
                            (w\<lparr>trace := trace w @ [HttpGet (Some u), HttpGet (Some v)]\<rparr>)))
         \<and> (\<forall>y. download e (Some u) dest w = Some y \<longrightarrow>
               prefix (trace w @ [HttpGet (Some u), HttpGet (Some v)]) (trace (snd y)))"
proof -
  let ?w1 = "emit (HttpGet (Some u)) w"
  let ?w2 = "w\<lparr>trace := trace w @ [HttpGet (Some u), HttpGet (Some v)]\<rparr>"
  have w2: "emit (HttpGet (Some v)) ?w1 = ?w2"
    by (simp add: emit_def)
  have first: "download e (Some u) dest w = download e (Some v) dest ?w1"
    using assms by (subst download.simps) auto
  have idx: "length (requests (trace ?w1)) = Suc (length (requests (trace w)))"
    by simp
  have second: "download e (Some v) dest ?w1 =
      (case https_get e (Suc (length (requests (trace w)))) (Some v) of
         RequestError m \<Rightarrow> Some (Rejected (External m), ?w2)
       | Response r' \<Rightarrow>
           if statusCode r' = 302 \<or> statusCode r' = 301 then download e (location r') dest ?w2
           else if statusCode r' \<noteq> 200 then Some (Rejected (DownloadFailed (statusCode r')), ?w2)
           else Some (receive e r' dest ?w2))"
    by (subst download.simps) (simp only: idx w2 option.simps if_False)
  have "prefix (trace w @ [HttpGet (Some u), HttpGet (Some v)]) (trace (snd y))"
    if "download e (Some u) dest w = Some y" for y
    using download_trace[of e "Some v" dest ?w1 y] that first by simp
  then show ?thesis
    unfolding first second by (auto split: get_outcome.splits)
qed

lemma download_redirect_then_ok:
  "\<exists>w'. download (example_env redirect_then_ok None) (Some ''https://example.org/python.tar.gz'')
          [''python.tar.gz''] empty_world = Some (Resolved, w')
     \<and> fs w' = [[''python.tar.gz''] \<mapsto> File ''abcd'']
     \<and> requests (trace w') = [Some ''https://example.org/python.tar.gz'',
                               Some ''https://objects.example.org/python.tar.gz'']"
  apply (subst download.simps)
  apply (simp add: https_get_example redirect_then_ok_def empty_world_def moved_response_def)
  apply (subst download.simps)
  apply (simp add: https_get_example redirect_then_ok_def ok_response_def emit_def receive_def
        createWriteStream_def Let_def is_dir_def is_file_def
        stdout_write_def append_file_def console_log_def)
  done

theorem redirect_is_followed_witness:
  "https_get (example_env redirect_then_ok None) (length (requests (trace empty_world)))
       (Some ''https://example.org/python.tar.gz'') = Response moved_response
   \<and> (statusCode moved_response = 301 \<or> statusCode moved_response = 302)
   \<and> location moved_response = Some ''https://objects.example.org/python.tar.gz''
   \<and> https_get (example_env redirect_then_ok None) (Suc (length (requests (trace empty_world))))
         (Some ''https://objects.example.org/python.tar.gz'') = Response (ok_response (Some ''4''))
   \<and> download (example_env redirect_then_ok None) (Some ''https://example.org/python.tar.gz'')
         [''python.tar.gz''] empty_world
       = Some (receive (example_env redirect_then_ok None) (ok_response (Some ''4'')) [''python.tar.gz'']
                 (empty_world\<lparr>trace := trace empty_world @
                    [HttpGet (Some ''https://example.org/python.tar.gz''),
                     HttpGet (Some ''https://objects.example.org/python.tar.gz'')]\<rparr>))
   \<and> (\<exists>w'. download (example_env redirect_then_ok None) (Some ''https://example.org/python.tar.gz'')
          [''python.tar.gz''] empty_world = Some (Resolved, w')
        \<and> fs w' = [[''python.tar.gz''] \<mapsto> File ''abcd''])"
proof -
  have get: "https_get (example_env redirect_then_ok None) (length (requests (trace empty_world)))
       (Some ''https://example.org/python.tar.gz'') = Response moved_response"
    by (simp add: https_get_example redirect_then_ok_def empty_world_def)
  have st: "statusCode moved_response = 301 \<or> statusCode moved_response = 302"
    by (simp add: moved_response_def)
  have loc: "location moved_response = Some ''https://objects.example.org/python.tar.gz''"
    by (simp add: moved_response_def)
  have nxt: "https_get (example_env redirect_then_ok None) (Suc (length (requests (trace empty_world))))
         (Some ''https://objects.example.org/python.tar.gz'') = Response (ok_response (Some ''4''))"
    by (simp add: https_get_example redirect_then_ok_def)
  have ok: "statusCode (ok_response (Some ''4'')) = 200"
    by (simp add: ok_response_def)
  have "download (example_env redirect_then_ok None) (Some ''https://example.org/python.tar.gz'')
         [''python.tar.gz''] empty_world
       = Some (receive (example_env redirect_then_ok None) (ok_response (Some ''4'')) [''python.tar.gz'']
                 (empty_world\<lparr>trace := trace empty_world @
                    [HttpGet (Some ''https://example.org/python.tar.gz''),
                     HttpGet (Some ''https://objects.example.org/python.tar.gz'')]\<rparr>))"
    using redirect_is_followed[OF get st loc, of "[''python.tar.gz'']"]
    by (simp only: nxt get_outcome.case ok) simp
  with get st loc nxt download_redirect_then_ok show ?thesis
    by blast
qed

text \<open>
  C4. A response whose status is neither 200 nor 301 nor 302 rejects the download with
  the error \<open>Download failed with status <code>\<close>, whose message ends with the decimal
  status code; the request is the only event, and the file system is untouched.
\<close>

theorem other_status_is_rejected:
  assumes "https_get e (length (requests (trace w))) (Some u) = Response r"
    and "statusCode r \<noteq> 200" and "statusCode r \<noteq> 301" and "statusCode r \<noteq> 302"
  shows "\<exists>w'. download e (Some u) dest w = Some (Rejected (DownloadFailed (statusCode r)), w')
           \<and> message (DownloadFailed (statusCode r))
               = ''Download failed with status '' @ decimal (statusCode r)
           \<and> suffix (decimal (statusCode r)) (message (DownloadFailed (statusCode r)))
           \<and> fs w' = fs w \<and> trace w' = trace w @ [HttpGet (Some u)]"
  using assms by (subst download.simps) (simp add: suffix_def)

theorem other_status_is_rejected_witness:
  "https_get (example_env always_not_found None) (length (requests (trace empty_world)))
       (Some ''https://example.org/python.tar.gz'') = Response not_found_response
   \<and> statusCode not_found_response \<noteq> 200 \<and> statusCode not_found_response \<noteq> 301
   \<and> statusCode not_found_response \<noteq> 302
   \<and> (\<exists>w'. download (example_env always_not_found None) (Some ''https://example.org/python.tar.gz'')
               [''python.tar.gz''] empty_world = Some (Rejected (DownloadFailed 404), w')
         \<and> message (DownloadFailed 404) = ''Download failed with status 404''
         \<and> fs w' = fs empty_world
         \<and> trace w' = [HttpGet (Some ''https://example.org/python.tar.gz'')])"
proof -
  have get: "https_get (example_env always_not_found None) (length (requests (trace empty_world)))
       (Some ''https://example.org/python.tar.gz'') = Response not_found_response"
    by (simp add: example_env_def always_not_found_def)
  have st: "statusCode not_found_response = 404"
    by (simp add: not_found_response_def)
  have ne: "statusCode not_found_response \<noteq> 200" "statusCode not_found_response \<noteq> 301"
    "statusCode not_found_response \<noteq> 302"
    by (simp_all add: st)
  have dec: "decimal 404 = ''404''"
    by (simp add: decimal.simps)
  show ?thesis
    using get ne other_status_is_rejected[OF get ne, of "[''python.tar.gz'']"]
    by (auto simp: st dec empty_world_def)
qed

lemma percent_NaN: "percent d (parseInt None) = ''NaN''"
proof -
  have "parseInt None = NaN"
    by (simp add: parseInt_def template_def is_white_space_def is_digit_def Let_def)
  moreover have "js_div d NaN = NaN"
    by (cases d) simp_all
  ultimately show ?thesis
    by (simp add: percent_def toFixed1_def)
qed

lemmas number_simps = round_double_def ilog2_def log2floor.simps rne_def Let_def

text \<open>
  The arithmetic is the one of doubles: 23 bytes of 80 are 28.749999999999996 per cent,
  which prints as 28.7.
\<close>

lemma percent_example: "percent (add_length (Finite False 0 1) 23) (parseInt (Some ''80'')) = ''28.7''"
proof -
  have "parseInt (Some ''80'') = Finite False (80 * 2 ^ 46) (2 ^ 46)"
    by (simp add: parseInt_def template_def is_white_space_def is_digit_def digits_value_def
        digit_value_def number_simps)
  moreover have "add_length (Finite False 0 1) 23 = Finite False (23 * 2 ^ 48) (2 ^ 48)"
    by (simp add: number_simps)
  ultimately show ?thesis
    by (simp add: percent_def toFixed1_def number_simps decimal.simps)
qed

text \<open>
  C6, as stated, fails: for a response without a \<open>Content-Length\<close> header a progress line is
  still written for each of the two chunks, with the text \<open>NaN\<close> as the percentage.
\<close>

theorem progress_without_content_length:
  "content_length (ok_response None) = None
   \<and> https_get (example_env ok_without_length None) 0 (Some ''https://example.org/python.tar.gz'')
       = Response (ok_response None)
   \<and> map_option (trace \<circ> snd)
        (download (example_env ok_without_length None) (Some ''https://example.org/python.tar.gz'')
           [''python.tar.gz''] empty_world)
       = Some [HttpGet (Some ''https://example.org/python.tar.gz''),
               CreateWriteStream [''python.tar.gz''],
               Stdout ([CHR 0x0D] @ ''Downloading: NaN%''),
               Stdout ([CHR 0x0D] @ ''Downloading: NaN%''),
               Stdout (newline @ ''Download completed!'' @ newline)]"
  apply (subst download.simps)
  apply (simp add: https_get_example ok_without_length_def ok_response_def emit_def receive_def
        empty_world_def createWriteStream_def Let_def is_dir_def is_file_def percent_NaN
        stdout_write_def append_file_def console_log_def)
  done

lemma createWriteStream_emit:
  "fst (createWriteStream dest (emit ev w)) = fst (createWriteStream dest w)"
  by (simp add: createWriteStream_def Let_def)

lemma createWriteStream_emitD:
  "createWriteStream dest (emit ev w) = (res, w') \<Longrightarrow> fst (createWriteStream dest w) = res"
  using createWriteStream_emit[of dest ev w] by simp

lemma length_running_totals: "length (running_totals d chunks) = length chunks"
  by (induction chunks arbitrary: d) simp_all

text \<open>
  C6 (amended). During a download with status 200, one progress line
  \<open>\rDownloading: <p>%\<close> is written to standard output for each chunk received, whether or
  not the response has a \<open>Content-Length\<close> header: \<open><p>\<close> is computed from the bytes
  received so far and the parsed header, and it is the text \<open>NaN\<close> when the header is
  absent. All chunks of the body are received when the file can be opened; the line
  \<open>Download completed!\<close> follows exactly when the download is resolved.
\<close>

theorem progress_on_every_chunk:
  assumes "https_get e (length (requests (trace w))) (Some u) = Response r" and "statusCode r = 200"
  shows "\<exists>res w'. download e (Some u) dest w = Some (res, w')
           \<and> trace w' = trace w @ [HttpGet (Some u), CreateWriteStream dest]
                @ map (progress_line (parseInt (content_length r)))
                    (running_totals (Finite False 0 1) (received e r dest w))
                @ (if res = Resolved then [Stdout (newline @ ''Download completed!'' @ newline)]
                   else [])
           \<and> length (running_totals (Finite False 0 1) (received e r dest w))
                = length (received e r dest w)
           \<and> (fst (createWriteStream dest w) = Inr () \<longrightarrow> received e r dest w = body r)
           \<and> (content_length r = None \<longrightarrow>
                 progress_line (parseInt (content_length r)) d = Stdout ([CHR 0x0D] @ ''Downloading: NaN%''))"
proof -
  let ?w1 = "emit (HttpGet (Some u)) w"
  have dl: "download e (Some u) dest w = Some (receive e r dest ?w1)"
    using assms by (subst download.simps) simp
  obtain res1 w1 where cws: "createWriteStream dest ?w1 = (res1, w1)"
    by (cases "createWriteStream dest ?w1")
  have t1: "trace w1 = trace w @ [HttpGet (Some u), CreateWriteStream dest]"
    using createWriteStream_trace[OF cws] by simp
  have same: "fst (createWriteStream dest w) = res1"
    using createWriteStream_emit[of dest "HttpGet (Some u)" w] cws by simp
  have main: "\<exists>res w'. receive e r dest ?w1 = (res, w')
           \<and> trace w' = trace w1
                @ map (progress_line (parseInt (content_length r)))
                    (running_totals (Finite False 0 1) (received e r dest w))
                @ (if res = Resolved then [Stdout (newline @ ''Download completed!'' @ newline)]
                   else [])"
  proof (cases res1)
    case (Inl err)
    then show ?thesis
      using cws same by (simp add: receive_def received_def on_data_trace)
  next
    case (Inr x)
    then show ?thesis
      using cws same
      by (cases "body_error r")
         (simp_all add: receive_def received_def on_data_trace Let_def console_log_def)
  qed
  have nan: "progress_line (parseInt (content_length r)) d = Stdout ([CHR 0x0D] @ ''Downloading: NaN%'')"
    if "content_length r = None"
    using that by (simp add: progress_line_def percent_NaN)
  have all: "received e r dest w = body r" if "fst (createWriteStream dest w) = Inr ()"
    using that by (simp add: received_def)
  from main dl t1 nan all show ?thesis
    by (auto simp: length_running_totals)
qed

theorem progress_on_every_chunk_witness:
  "https_get (example_env ok_without_length None) (length (requests (trace empty_world)))
       (Some ''https://example.org/python.tar.gz'') = Response (ok_response None)
   \<and> statusCode (ok_response None) = 200
   \<and> content_length (ok_response None) = None
   \<and> received (example_env ok_without_length None) (ok_response None) [''python.tar.gz''] empty_world
       = [''ab'', ''cd'']
   \<and> (\<exists>w'. download (example_env ok_without_length None) (Some ''https://example.org/python.tar.gz'')
               [''python.tar.gz''] empty_world = Some (Resolved, w')
          \<and> trace w' = [HttpGet (Some ''https://example.org/python.tar.gz''),
                         CreateWriteStream [''python.tar.gz''],
                         Stdout ([CHR 0x0D] @ ''Downloading: NaN%''),
                         Stdout ([CHR 0x0D] @ ''Downloading: NaN%''),
                         Stdout (newline @ ''Download completed!'' @ newline)])
   \<and> received (example_env ok_without_length None) (ok_response None) [''missing'', ''python.tar.gz'']
         empty_world = [''ab'']
   \<and> (\<exists>err w'. download (example_env ok_without_length None) (Some ''https://example.org/python.tar.gz'')
               [''missing'', ''python.tar.gz''] empty_world = Some (Rejected err, w')
          \<and> trace w' = [HttpGet (Some ''https://example.org/python.tar.gz''),
                         CreateWriteStream [''missing'', ''python.tar.gz''],
                         Stdout ([CHR 0x0D] @ ''Downloading: NaN%'')])"
proof -
  let ?e = "example_env ok_without_length None"
  let ?u = "''https://example.org/python.tar.gz''"
  have get: "https_get ?e (length (requests (trace empty_world))) (Some ?u) = Response (ok_response None)"
    by (simp add: example_env_def ok_without_length_def)
  have st: "statusCode (ok_response None) = 200"
    by (simp add: ok_response_def)
  have r: "content_length (ok_response None) = None" "body (ok_response None) = [''ab'', ''cd'']"
    "body_error (ok_response None) = None"
    by (simp_all add: ok_response_def)
  have opens: "fst (createWriteStream [''python.tar.gz''] empty_world) = Inr ()"
    by (simp add: createWriteStream_def Let_def emit_def empty_world_def is_file_def is_dir_def)
  have fails: "\<exists>m. fst (createWriteStream [''missing'', ''python.tar.gz''] empty_world) = Inl m"
    by (simp add: createWriteStream_def Let_def emit_def empty_world_def is_file_def is_dir_def)
  have rec1: "received ?e (ok_response None) [''python.tar.gz''] empty_world = [''ab'', ''cd'']"
    using opens by (simp add: received_def r)
  have rec2: "received ?e (ok_response None) [''missing'', ''python.tar.gz''] empty_world = [''ab'']"
    using fails by (auto simp: received_def r example_env_def)
  have line: "progress_line (parseInt (content_length (ok_response None))) d
                = Stdout ([CHR 0x0D] @ ''Downloading: NaN%'')" for d
    using progress_on_every_chunk[OF get st, of "[]" d] r(1) by blast
  from progress_on_every_chunk[OF get st, of "[''python.tar.gz'']"]
  obtain res1 w1 where d1: "download ?e (Some ?u) [''python.tar.gz''] empty_world = Some (res1, w1)"
    and t1: "trace w1 = trace empty_world @ [HttpGet (Some ?u), CreateWriteStream [''python.tar.gz'']]
                @ map (progress_line (parseInt (content_length (ok_response None))))
                    (running_totals (Finite False 0 1) [''ab'', ''cd''])
                @ (if res1 = Resolved then [Stdout (newline @ ''Download completed!'' @ newline)]
                   else [])"
    unfolding rec1 by blast
  have res1: "res1 = Resolved"
    using d1 opens
    by (subst (asm) download.simps)
       (auto simp: https_get_example ok_without_length_def ok_response_def receive_def
          Let_def split: prod.splits sum.splits dest: createWriteStream_emitD)
  from progress_on_every_chunk[OF get st, of "[''missing'', ''python.tar.gz'']"]
  obtain res2 w2 where d2: "download ?e (Some ?u) [''missing'', ''python.tar.gz''] empty_world = Some (res2, w2)"
    and t2: "trace w2 = trace empty_world @ [HttpGet (Some ?u), CreateWriteStream [''missing'', ''python.tar.gz'']]
                @ map (progress_line (parseInt (content_length (ok_response None))))
                    (running_totals (Finite False 0 1) [''ab''])
                @ (if res2 = Resolved then [Stdout (newline @ ''Download completed!'' @ newline)]
                   else [])"
    unfolding rec2 by blast
  have res2: "\<exists>err. res2 = Rejected err"
    using d2 fails
    by (subst (asm) download.simps)
       (auto simp: https_get_example ok_without_length_def ok_response_def receive_def
          Let_def split: prod.splits sum.splits dest: createWriteStream_emitD)
  then obtain err where err: "res2 = Rejected err" ..
  have a: "\<exists>w'. download ?e (Some ?u) [''python.tar.gz''] empty_world = Some (Resolved, w')
          \<and> trace w' = [HttpGet (Some ?u), CreateWriteStream [''python.tar.gz''],
                         Stdout ([CHR 0x0D] @ ''Downloading: NaN%''),
                         Stdout ([CHR 0x0D] @ ''Downloading: NaN%''),
                         Stdout (newline @ ''Download completed!'' @ newline)]"
    using d1 t1 res1 by (intro exI[of _ w1]) (simp add: line empty_world_def)
  have b: "\<exists>err w'. download ?e (Some ?u) [''missing'', ''python.tar.gz''] empty_world = Some (Rejected err, w')
          \<and> trace w' = [HttpGet (Some ?u), CreateWriteStream [''missing'', ''python.tar.gz''],
                         Stdout ([CHR 0x0D] @ ''Downloading: NaN%'')]"
    using d2 t2 err by (intro exI[of _ err] exI[of _ w2]) (simp add: line empty_world_def)
  from get st r(1) rec1 a rec2 b show ?thesis
    by (intro conjI)
qed


section \<open>Redirects\<close>

lemma requests_emit_get [simp]:
  "length (requests (trace (emit (HttpGet u) w))) = Suc (length (requests (trace w)))"
  by simp

lemma receive_not_unsettled: "fst (receive e r dest w) \<noteq> Unsettled"
  using receive_settled[of e r dest w] by auto

lemma hop_all_redirect:
  assumes "\<forall>i v. \<exists>r loc. https_get e i v = Response r
              \<and> (statusCode r = 301 \<or> statusCode r = 302) \<and> location r = Some loc"
  shows "\<not> stops (hop e i (Some u) k)"
proof (induction k arbitrary: i u)
  case 0
  from assms obtain r where "https_get e i (Some u) = Response r" "statusCode r = 301 \<or> statusCode r = 302"
    by blast
  then show ?case by (simp add: stops_def is_redirect_def)
next
  case (Suc k)
  from assms obtain r loc where "https_get e i (Some u) = Response r"
    "statusCode r = 301 \<or> statusCode r = 302" "location r = Some loc"
    by blast
  with Suc.IH[of "Suc i" loc] show ?case by (simp add: is_redirect_def)
qed

lemma download_ends_if:
  "stops (hop e (length (requests (trace w))) u k) \<Longrightarrow> \<exists>y. download e u dest w = Some y"
proof (induction k arbitrary: u w)
  case 0
  then show ?case
    by (subst download.simps) (auto simp: stops_def is_redirect_def split: get_outcome.splits)
next
  case (Suc k)
  show ?case
  proof (cases "u \<noteq> None \<and> is_redirect (https_get e (length (requests (trace w))) u)")
    case True
    then obtain r where r: "https_get e (length (requests (trace w))) u = Response r"
      "statusCode r = 301 \<or> statusCode r = 302"
      by (auto simp: is_redirect_def split: get_outcome.splits)
    with Suc.prems True
    have "stops (hop e (length (requests (trace (emit (HttpGet u) w)))) (location r) k)"
      by simp
    from Suc.IH[OF this] True r show ?thesis
      by (subst download.simps) auto
  next
    case False
    then show ?thesis
      by (subst download.simps) (auto simp: is_redirect_def split: get_outcome.splits)
  qed
qed

lemma download_ends_only_if:
  assumes "download e u dest w = Some y"
  shows "\<exists>k. stops (hop e (length (requests (trace w))) u k)"
proof (rule download.raw_induct[rotated, OF assms,
        where P = "\<lambda>e u dest w y. \<exists>k. stops (hop e (length (requests (trace w))) u k)"])
  fix d :: "env \<Rightarrow> string option \<Rightarrow> path \<Rightarrow> world \<Rightarrow> (outcome \<times> world) option"
  fix e u dest w y
  assume IH: "\<And>e u dest w y. d e u dest w = Some y \<Longrightarrow>
                 \<exists>k. stops (hop e (length (requests (trace w))) u k)"
  assume step: "(case https_get e (length (requests (trace w))) u of
        RequestError m \<Rightarrow> Some (Rejected (External m), emit (HttpGet u) w)
      | Response r \<Rightarrow>
          if u = None then Some (Unsettled, emit (HttpGet u) w)
          else if statusCode r = 302 \<or> statusCode r = 301 then d e (location r) dest (emit (HttpGet u) w)
          else if statusCode r \<noteq> 200 then Some (Rejected (DownloadFailed (statusCode r)), emit (HttpGet u) w)
          else Some (receive e r dest (emit (HttpGet u) w))) = Some y"
  show "\<exists>k. stops (hop e (length (requests (trace w))) u k)"
  proof (cases "u \<noteq> None \<and> is_redirect (https_get e (length (requests (trace w))) u)")
    case False
    then have "stops (hop e (length (requests (trace w))) u 0)"
      by (auto simp: stops_def)
    then show ?thesis by (rule exI[of _ 0])
  next
    case True
    then obtain r where r: "https_get e (length (requests (trace w))) u = Response r"
      "statusCode r = 301 \<or> statusCode r = 302"
      by (auto simp: is_redirect_def split: get_outcome.splits)
    with step True have "d e (location r) dest (emit (HttpGet u) w) = Some y" by auto
    from IH[OF this] obtain k where
      "stops (hop e (Suc (length (requests (trace w)))) (location r) k)"
      by auto
    with r True have "stops (hop e (length (requests (trace w))) u (Suc k))" by simp
    then show ?thesis by (rule exI[of _ "Suc k"])
  qed
qed

lemma download_settles_now:
  assumes "settles (u, https_get e (length (requests (trace w))) u)"
  shows "\<exists>res w'. download e u dest w = Some (res, w') \<and> res \<noteq> Unsettled"
proof (cases "https_get e (length (requests (trace w))) u")
  case (RequestError m)
  then have "download e u dest w = Some (Rejected (External m), emit (HttpGet u) w)"
    by (subst download.simps) simp
  then show ?thesis by simp
next
  case (Response r)
  with assms have u: "u \<noteq> None" and s: "statusCode r \<noteq> 301" "statusCode r \<noteq> 302"
    by (auto simp: settles_def is_redirect_def)
  show ?thesis
  proof (cases "statusCode r = 200")
    case False
    with Response u s
    have "download e u dest w = Some (Rejected (DownloadFailed (statusCode r)), emit (HttpGet u) w)"
      by (subst download.simps) auto
    then show ?thesis by simp
  next
    case True
    with Response u s
    have "download e u dest w = Some (receive e r dest (emit (HttpGet u) w))"
      by (subst download.simps) auto
    moreover obtain res w' where rw: "receive e r dest (emit (HttpGet u) w) = (res, w')"
      by (cases "receive e r dest (emit (HttpGet u) w)")
    moreover from receive_not_unsettled[of e r dest "emit (HttpGet u) w"] rw
    have "res \<noteq> Unsettled" by auto
    ultimately show ?thesis by simp
  qed
qed

lemma download_settles_if:
  "settles (hop e (length (requests (trace w))) u k) \<Longrightarrow>
   \<exists>res w'. download e u dest w = Some (res, w') \<and> res \<noteq> Unsettled"
proof (induction k arbitrary: u w)
  case 0
  then have "settles (u, https_get e (length (requests (trace w))) u)" by simp
  then show ?case by (rule download_settles_now)
next
  case (Suc k)
  show ?case
  proof (cases "u \<noteq> None \<and> is_redirect (https_get e (length (requests (trace w))) u)")
    case True
    then obtain r where r: "https_get e (length (requests (trace w))) u = Response r"
      "statusCode r = 301 \<or> statusCode r = 302"
      by (auto simp: is_redirect_def split: get_outcome.splits)
    with Suc.prems True
    have "settles (hop e (length (requests (trace (emit (HttpGet u) w)))) (location r) k)"
      by simp
    from Suc.IH[OF this] True r show ?thesis
      by (subst download.simps) auto
  next
    case False
    with Suc.prems have "settles (u, https_get e (length (requests (trace w))) u)"
      by (auto split: if_splits)
    then show ?thesis by (rule download_settles_now)
  qed
qed

lemma download_settles_only_if:
  assumes "download e u dest w = Some (res, w')" and "res \<noteq> Unsettled"
  shows "\<exists>k. settles (hop e (length (requests (trace w))) u k)"
proof -
  have "fst y \<noteq> Unsettled \<longrightarrow> (\<exists>k. settles (hop e (length (requests (trace w))) u k))"
    if "download e u dest w = Some y" for y
  proof (rule download.raw_induct[rotated, OF that,
        where P = "\<lambda>e u dest w y. fst y \<noteq> Unsettled \<longrightarrow>
                     (\<exists>k. settles (hop e (length (requests (trace w))) u k))"])
    fix d :: "env \<Rightarrow> string option \<Rightarrow> path \<Rightarrow> world \<Rightarrow> (outcome \<times> world) option"
    fix e u dest w y
    assume IH: "\<And>e u dest w y. d e u dest w = Some y \<Longrightarrow>
                 fst y \<noteq> Unsettled \<longrightarrow> (\<exists>k. settles (hop e (length (requests (trace w))) u k))"
    assume step: "(case https_get e (length (requests (trace w))) u of
        RequestError m \<Rightarrow> Some (Rejected (External m), emit (HttpGet u) w)
      | Response r \<Rightarrow>
          if u = None then Some (Unsettled, emit (HttpGet u) w)
          else if statusCode r = 302 \<or> statusCode r = 301 then d e (location r) dest (emit (HttpGet u) w)
          else if statusCode r \<noteq> 200 then Some (Rejected (DownloadFailed (statusCode r)), emit (HttpGet u) w)
          else Some (receive e r dest (emit (HttpGet u) w))) = Some y"
    show "fst y \<noteq> Unsettled \<longrightarrow> (\<exists>k. settles (hop e (length (requests (trace w))) u k))"
    proof
      assume ne: "fst y \<noteq> Unsettled"
      show "\<exists>k. settles (hop e (length (requests (trace w))) u k)"
      proof (cases "u \<noteq> None \<and> is_redirect (https_get e (length (requests (trace w))) u)")
        case False
        with step ne have "settles (hop e (length (requests (trace w))) u 0)"
          by (auto simp: settles_def is_redirect_def split: get_outcome.splits if_splits)
        then show ?thesis by (rule exI[of _ 0])
      next
        case True
        then obtain r where r: "https_get e (length (requests (trace w))) u = Response r"
          "statusCode r = 301 \<or> statusCode r = 302"
          by (auto simp: is_redirect_def split: get_outcome.splits)
        with step True have "d e (location r) dest (emit (HttpGet u) w) = Some y" by auto
        from IH[OF this] ne obtain k where
          "settles (hop e (Suc (length (requests (trace w)))) (location r) k)"
          by auto
        with r True have "settles (hop e (length (requests (trace w))) u (Suc k))" by simp
        then show ?thesis by (rule exI[of _ "Suc k"])
      qed
    qed
  qed
  from this[OF assms(1)] assms(2) show ?thesis by simp
qed

lemma download_redirect_to_self:
  assumes "length (requests (trace w)) + j = n"
  shows "download (example_env (redirect_to_self n) None) (Some u) dest w
           = Some (Rejected (DownloadFailed 404),
                   w\<lparr>trace := trace w @ replicate (Suc j) (HttpGet (Some u))\<rparr>)"
  using assms
proof (induction j arbitrary: w)
  case 0
  then show ?case
    by (subst download.simps) (simp add: https_get_example redirect_to_self_def emit_def)
next
  case (Suc j)
  have "length (requests (trace (emit (HttpGet (Some u)) w))) + j = n"
    using Suc.prems by simp
  from Suc.IH[OF this]
  have "download (example_env (redirect_to_self n) None) (Some u) dest (emit (HttpGet (Some u)) w)
          = Some (Rejected (DownloadFailed 404),
                  w\<lparr>trace := trace w @ replicate (Suc (Suc j)) (HttpGet (Some u))\<rparr>)"
    by (simp add: emit_def)
  moreover have "download (example_env (redirect_to_self n) None) (Some u) dest w
          = download (example_env (redirect_to_self n) None) (Some u) dest (emit (HttpGet (Some u)) w)"
    using Suc.prems by (subst download.simps) (simp add: https_get_example redirect_to_self_def)
  ultimately show ?case by simp
qed

text \<open>
  C7, as stated, fails on its last part: the server answers every request it answers with
  status 302, the second request fails with a reset connection, and the download ends,
  rejected, although no other status was ever returned.
\<close>

theorem redirects_end_on_request_error:
  "https_get (example_env redirect_then_reset None) 0 (Some ''https://example.org/python.tar.gz'')
     = Response moved_response
   \<and> statusCode moved_response = 302
   \<and> location moved_response = Some ''https://objects.example.org/python.tar.gz''
   \<and> https_get (example_env redirect_then_reset None) 1 (Some ''https://objects.example.org/python.tar.gz'')
       = RequestError ''read ECONNRESET''
   \<and> download (example_env redirect_then_reset None) (Some ''https://example.org/python.tar.gz'')
         [''python.tar.gz''] empty_world
       = Some (Rejected (External ''read ECONNRESET''),
               \<lparr>fs = Map.empty,
                trace = [HttpGet (Some ''https://example.org/python.tar.gz''),
                         HttpGet (Some ''https://objects.example.org/python.tar.gz'')]\<rparr>)"
proof -
  have "download (example_env redirect_then_reset None) (Some ''https://example.org/python.tar.gz'')
         [''python.tar.gz''] empty_world
       = download (example_env redirect_then_reset None)
           (Some ''https://objects.example.org/python.tar.gz'') [''python.tar.gz'']
           (emit (HttpGet (Some ''https://example.org/python.tar.gz'')) empty_world)"
    by (subst download.simps)
       (simp add: https_get_example redirect_then_reset_def moved_response_def empty_world_def)
  also have "\<dots> = Some (Rejected (External ''read ECONNRESET''),
               \<lparr>fs = Map.empty,
                trace = [HttpGet (Some ''https://example.org/python.tar.gz''),
                         HttpGet (Some ''https://objects.example.org/python.tar.gz'')]\<rparr>)"
    by (subst download.simps)
       (simp add: https_get_example redirect_then_reset_def emit_def empty_world_def)
  finally show ?thesis
    by (simp add: https_get_example redirect_then_reset_def moved_response_def)
qed

text \<open>
  C7 (amended). The recursion of \<open>download\<close> on redirects has no bound and no memory of
  the URLs it has visited. If every request is answered with status 301 or 302 and a
  \<open>Location\<close> header, \<open>download\<close> never ends. The recursion ends exactly when some request
  of the chain fails, or is answered with another status, or is the request for
  \<open>undefined\<close> that follows a redirect without a \<open>Location\<close> header; the promise is settled
  exactly in the first two cases. And for every \<open>n\<close>, a server that redirects the first
  \<open>n\<close> requests to the URL just requested is followed through all \<open>n\<close> redirects, to the
  same URL each time.
\<close>

theorem redirects_are_unbounded:
  "((\<forall>i v. \<exists>r loc. https_get e i v = Response r
         \<and> (statusCode r = 301 \<or> statusCode r = 302) \<and> location r = Some loc)
      \<longrightarrow> download e (Some u) dest w = None)
   \<and> ((\<exists>y. download e u' dest w = Some y)
        \<longleftrightarrow> (\<exists>k. stops (hop e (length (requests (trace w))) u' k)))
   \<and> ((\<exists>res w'. download e u' dest w = Some (res, w') \<and> res \<noteq> Unsettled)
        \<longleftrightarrow> (\<exists>k. settles (hop e (length (requests (trace w))) u' k)))
   \<and> download (example_env (redirect_to_self n) None) (Some u) dest empty_world
       = Some (Rejected (DownloadFailed 404),
               \<lparr>fs = Map.empty, trace = replicate (Suc n) (HttpGet (Some u))\<rparr>)"
proof -
  have ends: "(\<exists>y. download e u' dest w = Some y)
        \<longleftrightarrow> (\<exists>k. stops (hop e (length (requests (trace w))) u' k))" for u'
    using download_ends_if download_ends_only_if by blast
  have settled: "(\<exists>res w'. download e u' dest w = Some (res, w') \<and> res \<noteq> Unsettled)
        \<longleftrightarrow> (\<exists>k. settles (hop e (length (requests (trace w))) u' k))"
    using download_settles_if download_settles_only_if by blast
  have "download e (Some u) dest w = None"
    if "\<forall>i v. \<exists>r loc. https_get e i v = Response r
         \<and> (statusCode r = 301 \<or> statusCode r = 302) \<and> location r = Some loc"
    using ends[of "Some u"] hop_all_redirect[OF that] by (cases "download e (Some u) dest w") auto
  moreover have "download (example_env (redirect_to_self n) None) (Some u) dest empty_world
       = Some (Rejected (DownloadFailed 404),
               \<lparr>fs = Map.empty, trace = replicate (Suc n) (HttpGet (Some u))\<rparr>)"
    using download_redirect_to_self[of empty_world n n u dest] by (simp add: empty_world_def)
  ultimately show ?thesis
    using ends[of u'] settled by blast
qed

theorem redirects_are_unbounded_witness:
  "(\<forall>i v. \<exists>r loc. https_get (example_env always_moved None) i v = Response r
        \<and> (statusCode r = 301 \<or> statusCode r = 302) \<and> location r = Some loc)
   \<and> download (example_env always_moved None) (Some ''https://example.org/python.tar.gz'')
         [''python.tar.gz''] empty_world = None
   \<and> settles (hop (example_env redirect_then_reset None) (length (requests (trace empty_world)))
           (Some ''https://example.org/python.tar.gz'') 1)
   \<and> (\<exists>res w'. download (example_env redirect_then_reset None) (Some ''https://example.org/python.tar.gz'')
              [''python.tar.gz''] empty_world = Some (res, w') \<and> res \<noteq> Unsettled)
   \<and> stops (hop (example_env moved_nowhere None) (length (requests (trace empty_world)))
           (Some ''https://example.org/python.tar.gz'') 1)
   \<and> (\<exists>y. download (example_env moved_nowhere None) (Some ''https://example.org/python.tar.gz'')
              [''python.tar.gz''] empty_world = Some y)"
proof -
  let ?u = "Some ''https://example.org/python.tar.gz''"
  have all: "\<forall>i v. \<exists>r loc. https_get (example_env always_moved None) i v = Response r
        \<and> (statusCode r = 301 \<or> statusCode r = 302) \<and> location r = Some loc"
    by (simp add: https_get_example always_moved_def moved_response_def)
  have one: "settles (hop (example_env redirect_then_reset None) (length (requests (trace empty_world))) ?u 1)"
    by (simp add: https_get_example redirect_then_reset_def moved_response_def
        is_redirect_def settles_def empty_world_def)
  have two: "stops (hop (example_env moved_nowhere None) (length (requests (trace empty_world))) ?u 1)"
    by (simp add: https_get_example moved_nowhere_def lost_response_def
        is_redirect_def stops_def empty_world_def)
  from all have a: "download (example_env always_moved None) ?u [''python.tar.gz''] empty_world = None"
    using redirects_are_unbounded[of "example_env always_moved None"
        "''https://example.org/python.tar.gz''" "[''python.tar.gz'']" empty_world]
    by blast
  from one have b: "\<exists>res w'. download (example_env redirect_then_reset None) ?u
              [''python.tar.gz''] empty_world = Some (res, w') \<and> res \<noteq> Unsettled"
    using redirects_are_unbounded[of "example_env redirect_then_reset None" _ "[''python.tar.gz'']"
        empty_world ?u]
    by blast
  from two have c: "\<exists>y. download (example_env moved_nowhere None) ?u
              [''python.tar.gz''] empty_world = Some y"
    using redirects_are_unbounded[of "example_env moved_nowhere None" _ "[''python.tar.gz'']"
        empty_world ?u]
    by blast
  from all a one b two c show ?thesis
    by (intro conjI)
qed


section \<open>Extraction\<close>

lemma components_acc_nonempty: "components_acc cur s \<noteq> []"
  by (induction s arbitrary: cur) auto

lemma components_nonempty: "1 \<le> length (components s)"
  using components_acc_nonempty[of "[]" s] by (cases "components s") (auto simp: components_def)

lemma components_acc_slash:
  "CHR ''/'' \<notin> set dir \<Longrightarrow>
   components_acc cur (dir @ CHR ''/'' # rest) = (rev cur @ dir) # components_acc [] rest"
  by (induction dir arbitrary: cur) auto

lemma stripped_top: "CHR ''/'' \<notin> set dir \<Longrightarrow> stripped 1 (dir @ ''/'' @ rest) = stripped 0 rest"
  by (simp add: stripped_def components_def components_acc_slash)

lemma write_node_outside:
  "q = cwd \<or> \<not> prefix q (cwd @ rel) \<Longrightarrow> rel \<noteq> [] \<Longrightarrow> write_node cwd rel n f q = f q"
  by (auto simp: write_node_def)

lemma write_node_elsewhere: "\<not> prefix cwd q \<Longrightarrow> write_node cwd rel n f q = f q"
  by (auto simp: write_node_def)

lemma tar_unpack_entry_outside:
  "q = cwd \<or> \<not> prefix q (cwd @ stripped strip (fst entry)) \<or> \<not> prefix cwd q \<Longrightarrow>
   tar_unpack_entry cwd strip f entry q = f q"
  by (auto simp: tar_unpack_entry_def Let_def write_node_outside write_node_elsewhere)

lemma tar_unpack_outside:
  "q = cwd \<or> \<not> prefix cwd q \<or> (\<forall>entry \<in> set entries. \<not> prefix q (cwd @ stripped strip (fst entry))) \<Longrightarrow>
   foldl (tar_unpack_entry cwd strip) f entries q = f q"
proof (induction entries arbitrary: f)
  case Nil
  then show ?case by simp
next
  case (Cons entry entries)
  have "tar_unpack_entry cwd strip f entry q = f q"
    using Cons.prems by (intro tar_unpack_entry_outside) auto
  moreover have "foldl (tar_unpack_entry cwd strip) (tar_unpack_entry cwd strip f entry) entries q
                   = tar_unpack_entry cwd strip f entry q"
    using Cons.prems by (intro Cons.IH) auto
  ultimately show ?case by simp
qed

lemma zip_unpack_entry_outside:
  "q = target \<or> \<not> prefix target q \<Longrightarrow> zip_unpack_entry target f entry q = f q"
  by (auto simp: zip_unpack_entry_def Let_def write_node_outside write_node_elsewhere)

lemma zip_unpack_outside:
  "q = target \<or> \<not> prefix target q \<Longrightarrow> foldl (zip_unpack_entry target) f entries q = f q"
  by (induction entries arbitrary: f) (simp_all add: zip_unpack_entry_outside)

lemma unambiguous_butlast: "unambiguous strip (entries @ [entry]) \<Longrightarrow> unambiguous strip entries"
  by (auto simp: unambiguous_def)

lemma tar_unpack_content:
  assumes "unambiguous strip entries" and "(p, n) \<in> set entries"
    and "stripped strip p \<noteq> []" and "''..'' \<notin> set (stripped strip p)"
    and "strip \<le> length (components p)"
  shows "foldl (tar_unpack_entry cwd strip) f entries (cwd @ stripped strip p) = Some n"
  using assms(1,2)
proof (induction entries rule: rev_induct)
  case Nil
  then show ?case by simp
next
  case (snoc entry entries)
  let ?g = "foldl (tar_unpack_entry cwd strip) f entries"
  show ?case
  proof (cases "(p, n) = entry")
    case True
    then have entry: "entry = (p, n)" by simp
    have "tar_unpack_entry cwd strip ?g (p, n) (cwd @ stripped strip p) = Some n"
      using assms(3-5) by (simp add: tar_unpack_entry_def Let_def write_node_def)
    then show ?thesis by (simp add: entry)
  next
    case False
    with snoc.prems have mem: "(p, n) \<in> set entries" by auto
    have old: "?g (cwd @ stripped strip p) = Some n"
      using snoc.IH[OF unambiguous_butlast[OF snoc.prems(1)] mem] .
    have ne: "stripped strip (fst entry) \<noteq> stripped strip p"
      using snoc.prems(1) mem by (force simp: unambiguous_def)
    have dir: "n = Dir \<or> \<not> strict_prefix (stripped strip p) (stripped strip (fst entry))"
      using snoc.prems(1) mem by (force simp: unambiguous_def)
    have "write_node cwd (stripped strip (fst entry)) (snd entry) ?g (cwd @ stripped strip p) = Some n"
      using old ne dir by (auto simp: write_node_def strict_prefix_def)
    with old have "tar_unpack_entry cwd strip ?g entry (cwd @ stripped strip p) = Some n"
      by (simp add: tar_unpack_entry_def Let_def)
    then show ?thesis by simp
  qed
qed

lemma mkdir_ok:
  assumes "\<forall>q \<in> set (prefixes p). \<not> is_file (fs w q)"
  shows "\<exists>w'. mkdir p w = (Inr (), w') \<and> trace w' = trace w @ [Mkdir p]
           \<and> fs w' = (\<lambda>q. if q \<noteq> [] \<and> prefix q p then Some Dir else fs w q)"
  using assms by (auto simp: mkdir_def Let_def fun_eq_iff)

lemma mkdir_keeps_files:
  assumes "mkdir p w = (res, w')" and "is_file (fs w q) \<or> \<not> prefix q p"
  shows "fs w' q = fs w q"
  using assms by (auto simp: mkdir_def Let_def in_set_prefixes split: if_splits)


lemma fs_console_log [simp]: "fs (console_log s w) = fs w"
  by (simp add: console_log_def)

lemma trace_console_log [simp]: "trace (console_log s w) = trace w @ [Stdout (s @ newline)]"
  by (simp add: console_log_def)

lemma tar_extract_ok:
  assumes "fs w file = Some (File bytes)" and "tar_read e bytes = (entries, None)"
    and "is_dir (fs w) cwd"
  shows "\<exists>w'. tar_extract e file cwd strip w = (Inr (), w')
           \<and> trace w' = trace w @ [TarExtract file cwd strip]
           \<and> fs w' = foldl (tar_unpack_entry cwd strip) (fs w) entries"
  using assms by (simp add: tar_extract_def Let_def)

text \<open>
  C8. For an archive that the tar reader reads without error, \<open>extractTarGz\<close> first
  creates the destination directory with its parents and then unpacks with \<open>strip: 1\<close>:
  the trace shows the two calls in this order. The destination is a directory afterwards,
  an entry \<open>dir/rest\<close> of the archive is found at \<open>rest\<close> below the destination (not at
  \<open>dir/rest\<close>), and nothing is written elsewhere.
\<close>

theorem tar_gz_top_level_is_stripped:
  assumes "fs w tarPath = Some (File bytes)" and "tar_read e bytes = (entries, None)"
    and "\<forall>q \<in> set (prefixes destDir). \<not> is_file (fs w q)"
    and "unambiguous 1 entries"
  shows "\<exists>w'. extractTarGz e tarPath destDir w = (Inr (), w')
           \<and> trace w' = trace w @
                [Stdout (''Extracting tar.gz to '' @ path_string destDir @ ''...'' @ newline),
                 Mkdir destDir, TarExtract tarPath destDir 1,
                 Stdout (''Extraction completed!'' @ newline)]
           \<and> is_dir (fs w') destDir
           \<and> (\<forall>dir rest n.
                 (dir @ ''/'' @ rest, n) \<in> set entries \<and> CHR ''/'' \<notin> set dir
                   \<and> stripped 0 rest \<noteq> [] \<and> ''..'' \<notin> set (stripped 0 rest)
                 \<longrightarrow> fs w' (destDir @ stripped 0 rest) = Some n)
           \<and> (\<forall>q. \<not> prefix q destDir
                     \<and> (\<forall>entry \<in> set entries. \<not> prefix q (destDir @ stripped 1 (fst entry)))
                 \<longrightarrow> fs w' q = fs w q)"
proof -
  let ?w1 = "console_log (''Extracting tar.gz to '' @ path_string destDir @ ''...'') w"
  let ?f2 = "\<lambda>q. if q \<noteq> [] \<and> prefix q destDir then Some Dir else fs w q"
  let ?f3 = "foldl (tar_unpack_entry destDir 1) ?f2 entries"
  have "\<forall>q \<in> set (prefixes destDir). \<not> is_file (fs ?w1 q)"
    using assms(3) by simp
  from mkdir_ok[OF this] obtain w2 where mk: "mkdir destDir ?w1 = (Inr (), w2)"
    and t2: "trace w2 = trace ?w1 @ [Mkdir destDir]" and f2: "fs w2 = ?f2"
    by (auto simp only: fs_console_log)
  have "is_file (fs w tarPath)"
    using assms(1) by (simp add: is_file_def)
  with assms(3) have "\<not> prefix tarPath destDir"
    by (auto simp: in_set_prefixes)
  then have arch: "fs w2 tarPath = Some (File bytes)"
    using assms(1) by (simp add: f2)
  have dir: "is_dir (fs w2) destDir"
    by (simp add: is_dir_def f2)
  from tar_extract_ok[OF arch assms(2) dir, of 1]
  obtain w3 where tar: "tar_extract e tarPath destDir 1 w2 = (Inr (), w3)"
    and t3: "trace w3 = trace w2 @ [TarExtract tarPath destDir 1]" and f3: "fs w3 = ?f3"
    by (auto simp: f2)
  have run: "extractTarGz e tarPath destDir w = (Inr (), console_log ''Extraction completed!'' w3)"
    using mk tar by (simp add: extractTarGz_def)
  have "?f3 destDir = ?f2 destDir"
    by (rule tar_unpack_outside) simp
  then have d: "is_dir ?f3 destDir"
    by (simp add: is_dir_def)
  have content: "?f3 (destDir @ stripped 0 rest) = Some n"
    if "(dir @ ''/'' @ rest, n) \<in> set entries" "CHR ''/'' \<notin> set dir"
      "stripped 0 rest \<noteq> []" "''..'' \<notin> set (stripped 0 rest)" for dir rest n
  proof -
    have "stripped 1 (dir @ ''/'' @ rest) = stripped 0 rest"
      using that(2) by (rule stripped_top)
    with tar_unpack_content[OF assms(4) that(1), of destDir ?f2] that(3,4)
      components_nonempty[of "dir @ ''/'' @ rest"]
    show ?thesis by simp
  qed
  have frame: "?f3 q = fs w q"
    if "\<not> prefix q destDir" "\<forall>entry \<in> set entries. \<not> prefix q (destDir @ stripped 1 (fst entry))" for q
  proof -
    have "?f3 q = ?f2 q"
      using that(2) by (intro tar_unpack_outside) simp
    with that(1) show ?thesis by simp
  qed
  have tr: "trace (console_log ''Extraction completed!'' w3) = trace w @
                [Stdout (''Extracting tar.gz to '' @ path_string destDir @ ''...'' @ newline),
                 Mkdir destDir, TarExtract tarPath destDir 1,
                 Stdout (''Extraction completed!'' @ newline)]"
    by (simp add: t3 t2)
  show ?thesis
    using run d content frame tr
    by (intro exI[of _ "console_log ''Extraction completed!'' w3"]) (simp only: f3 fs_console_log, blast)
qed


lemma stripped_example:
  "stripped 1 ''python/'' = []"
  "stripped 1 ''python/bin/python3'' = [''bin'', ''python3'']"
  "stripped 1 ''python/lib/os.py'' = [''lib'', ''os.py'']"
  "stripped 0 ''bin/python3'' = [''bin'', ''python3'']"
  "stripped 0 ''lib/os.py'' = [''lib'', ''os.py'']"
  by (simp_all add: stripped_def components_def)

lemma unambiguous_example: "unambiguous 1 example_entries"
  unfolding unambiguous_def example_entries_def
  by (simp add: stripped_example del: One_nat_def)

theorem tar_gz_top_level_is_stripped_witness:
  "fs archive_world [''repo'', ''python.tar.gz''] = Some (File ''gz'')
   \<and> tar_read (example_env redirect_then_ok None) ''gz'' = (example_entries, None)
   \<and> list_all (\<lambda>q. \<not> is_file (fs archive_world q)) (prefixes [''repo'', ''python''])
   \<and> unambiguous 1 example_entries
   \<and> (\<exists>w'. extractTarGz (example_env redirect_then_ok None) [''repo'', ''python.tar.gz'']
               [''repo'', ''python''] archive_world = (Inr (), w')
         \<and> trace w' = [Stdout (''Extracting tar.gz to /repo/python...'' @ newline),
                        Mkdir [''repo'', ''python''],
                        TarExtract [''repo'', ''python.tar.gz''] [''repo'', ''python''] 1,
                        Stdout (''Extraction completed!'' @ newline)]
         \<and> fs w' [''repo'', ''python'', ''bin'', ''python3''] = Some (File ''ELF'')
         \<and> fs w' [''repo'', ''python'', ''lib'', ''os.py''] = Some (File ''import'')
         \<and> fs w' [''repo'', ''python'', ''python''] = None)"
proof -
  have h1: "fs archive_world [''repo'', ''python.tar.gz''] = Some (File ''gz'')"
    by (simp add: archive_world_def)
  have h2: "tar_read (example_env redirect_then_ok None) ''gz'' = (example_entries, None)"
    by (simp add: example_env_def)
  have h3: "\<forall>q \<in> set (prefixes [''repo'', ''python'']). \<not> is_file (fs archive_world q)"
    by (simp add: archive_world_def is_file_def)
  have h3': "list_all (\<lambda>q. \<not> is_file (fs archive_world q)) (prefixes [''repo'', ''python''])"
    using h3 by (simp only: list_all_iff)
  from tar_gz_top_level_is_stripped[OF h1 h2 h3 unambiguous_example]
  obtain w' where run: "extractTarGz (example_env redirect_then_ok None) [''repo'', ''python.tar.gz'']
               [''repo'', ''python''] archive_world = (Inr (), w')"
    and tr: "trace w' = trace archive_world @
                [Stdout (''Extracting tar.gz to '' @ path_string [''repo'', ''python''] @ ''...'' @ newline),
                 Mkdir [''repo'', ''python''],
                 TarExtract [''repo'', ''python.tar.gz''] [''repo'', ''python''] 1,
                 Stdout (''Extraction completed!'' @ newline)]"
    and content: "\<And>dir rest n. (dir @ ''/'' @ rest, n) \<in> set example_entries \<Longrightarrow> CHR ''/'' \<notin> set dir
         \<Longrightarrow> stripped 0 rest \<noteq> [] \<Longrightarrow> ''..'' \<notin> set (stripped 0 rest)
         \<Longrightarrow> fs w' ([''repo'', ''python''] @ stripped 0 rest) = Some n"
    and frame: "\<And>q. \<not> prefix q [''repo'', ''python''] \<Longrightarrow>
         \<forall>entry \<in> set example_entries. \<not> prefix q ([''repo'', ''python''] @ stripped 1 (fst entry))
         \<Longrightarrow> fs w' q = fs archive_world q"
    by blast
  have a: "fs w' [''repo'', ''python'', ''bin'', ''python3''] = Some (File ''ELF'')"
    using content[of "''python''" "''bin/python3''" "File ''ELF''"]
    by (simp add: example_entries_def stripped_example)
  have b: "fs w' [''repo'', ''python'', ''lib'', ''os.py''] = Some (File ''import'')"
    using content[of "''python''" "''lib/os.py''" "File ''import''"]
    by (simp add: example_entries_def stripped_example)
  have c: "fs w' [''repo'', ''python'', ''python''] = None"
    using frame[of "[''repo'', ''python'', ''python'']"]
    by (simp add: example_entries_def stripped_example archive_world_def del: One_nat_def)
  have t: "trace w' = [Stdout (''Extracting tar.gz to /repo/python...'' @ newline),
                        Mkdir [''repo'', ''python''],
                        TarExtract [''repo'', ''python.tar.gz''] [''repo'', ''python''] 1,
                        Stdout (''Extraction completed!'' @ newline)]"
    using tr by (simp add: archive_world_def path_string_def)
  show ?thesis
    using h1 h2 h3' unambiguous_example run t a b c by blast
qed


section \<open>Cleanup\<close>

lemma on_data_file:
  "is_file (fs w dest) \<Longrightarrow> is_file (fs (on_data t d chunks opened dest w) dest)"
  by (induction chunks arbitrary: d w)
     (simp_all add: Let_def append_file_def stdout_write_def is_file_def)

lemma receive_file:
  assumes "receive e r dest w = (Resolved, w')"
  shows "is_file (fs w' dest)"
proof -
  from assms obtain w1 where cws: "createWriteStream dest w = (Inr (), w1)"
    and w': "w' = console_log (newline @ ''Download completed!'')
                    (on_data (parseInt (content_length r)) (Finite False 0 1) (body r) True dest w1)"
    by (auto simp: receive_def Let_def split: prod.splits sum.splits option.splits)
  have "is_file (fs w1 dest)"
    using cws by (auto simp: createWriteStream_def Let_def is_file_def split: if_splits)
  then show ?thesis
    by (simp add: w' on_data_file)
qed

lemma download_file:
  assumes "download e u dest w = Some (Resolved, w')"
  shows "is_file (fs w' dest)"
proof -
  have "fst y = Resolved \<longrightarrow> is_file (fs (snd y) dest)" if "download e u dest w = Some y" for y
    by (rule download.raw_induct[rotated, OF that,
          where P = "\<lambda>e u dest w y. fst y = Resolved \<longrightarrow> is_file (fs (snd y) dest)"])
       (auto split: get_outcome.splits if_splits dest: receive_file)
  from this[OF assms] show ?thesis by simp
qed

lemma tar_extract_frame:
  assumes "tar_extract e a d n w = (r, w')" and "q = d \<or> \<not> prefix d q"
  shows "fs w' q = fs w q"
  using assms
  by (auto simp: tar_extract_def Let_def tar_unpack_outside
      split: option.splits node.splits if_splits prod.splits)

lemma tar_extract_trace:
  "tar_extract e a d n w = (r, w') \<Longrightarrow> trace w' = trace w @ [TarExtract a d n]"
  by (auto simp: tar_extract_def Let_def split: option.splits node.splits if_splits prod.splits)

lemma extractAllTo_frame:
  assumes "extractAllTo e a d b w = (r, w')" and "q = d \<or> \<not> prefix d q"
  shows "fs w' q = fs w q"
  using assms
  by (auto simp: extractAllTo_def Let_def zip_unpack_outside
      split: option.splits node.splits if_splits prod.splits)

lemma extractAllTo_trace:
  "extractAllTo e a d b w = (r, w') \<Longrightarrow> trace w' = trace w @ [ExtractAllTo a d b]"
  by (auto simp: extractAllTo_def Let_def split: option.splits node.splits if_splits prod.splits)

lemma extractTarGz_frame:
  assumes "extractTarGz e a d w = (r, w')" and "is_file (fs w q)" and "\<not> prefix d q"
  shows "fs w' q = fs w q"
proof -
  let ?w1 = "console_log (''Extracting tar.gz to '' @ path_string d @ ''...'') w"
  obtain r2 w2 where mk: "mkdir d ?w1 = (r2, w2)" by (cases "mkdir d ?w1")
  have f2: "fs w2 q = fs w q"
    using mkdir_keeps_files[OF mk, of q] assms(2) by simp
  show ?thesis
  proof (cases r2)
    case (Inl err)
    with assms(1) mk f2 show ?thesis by (simp add: extractTarGz_def)
  next
    case (Inr u)
    obtain r3 w3 where tar: "tar_extract e a d 1 w2 = (r3, w3)" by (cases "tar_extract e a d 1 w2")
    have "fs w3 q = fs w2 q"
      using tar_extract_frame[OF tar] assms(3) by simp
    with assms(1) mk Inr tar f2 show ?thesis
      by (cases r3) (auto simp: extractTarGz_def)
  qed
qed

lemma extractZip_frame:
  assumes "extractZip e a d w = (r, w')" and "is_file (fs w q)" and "\<not> prefix d q"
  shows "fs w' q = fs w q"
proof -
  let ?w1 = "console_log (''Extracting zip to '' @ path_string d @ ''...'') w"
  obtain r2 w2 where mk: "mkdir d ?w1 = (r2, w2)" by (cases "mkdir d ?w1")
  have f2: "fs w2 q = fs w q"
    using mkdir_keeps_files[OF mk, of q] assms(2) by simp
  show ?thesis
  proof (cases r2)
    case (Inl err)
    with assms(1) mk f2 show ?thesis by (simp add: extractZip_def)
  next
    case (Inr u)
    obtain r3 w3 where zip: "extractAllTo e a d True w2 = (r3, w3)"
      by (cases "extractAllTo e a d True w2")
    have "fs w3 q = fs w2 q"
      using extractAllTo_frame[OF zip] assms(3) by simp
    with assms(1) mk Inr zip f2 show ?thesis
      by (cases r3) (auto simp: extractZip_def)
  qed
qed

lemma extract_archive_frame:
  assumes "extract_archive e t a d w = (r, w')" and "is_file (fs w q)" and "\<not> prefix d q"
  shows "fs w' q = fs w q"
  using assms
  by (auto simp: extract_archive_def split: if_splits dest: extractTarGz_frame extractZip_frame)

lemma unlink_ok:
  assumes "is_file (fs w p)"
  shows "\<exists>w'. unlink p w = (Inr (), w') \<and> fs w' p = None \<and> trace w' = trace w @ [Unlink p]"
  using assms by (auto simp: unlink_def Let_def is_file_def split: option.splits node.splits)

lemma archive_outside_pythonDir:
  assumes "plain f" and "f \<noteq> ''python''"
  shows "\<not> prefix (pythonDir e k) (archivePath e k f)"
  using assms by (simp add: pythonDir_eq archivePath_eq)

lemma existsSync_console_log [simp]: "existsSync p (console_log s w) = existsSync p w"
  by (simp add: existsSync_def)

text \<open>
  C5. For a key of the table, once the archive has been downloaded, it is a file on
  disk. If the extraction succeeds, \<open>downloadAndSetup\<close> unlinks the archive: the run
  exits with code 0 and the archive is gone. If the extraction fails with an error,
  \<open>downloadAndSetup\<close> rejects with that error, which the top-level handler prints before
  it exits with code 1, and the archive is on disk as it was downloaded.
\<close>

theorem archive_deleted_iff_extracted:
  assumes "(k, c) \<in> set PLATFORMS"
    and "basename (Some (url c)) = Inr filename"
    and "targetPlatform e argv = k"
    and "\<not> existsSync (pythonDir e k) w0"
    and "mkdir (resourcesDir e k)
           (announce k (Some (url c)) (Some (type c))
              (console_log (''Setting up Python for platform: '' @ k) w0)) = (Inr (), w1)"
    and "download e (Some (url c)) (archivePath e k filename) w1 = Some (Resolved, w2)"
    and "extract_archive e (Some (type c)) (archivePath e k filename) (pythonDir e k) w2 = (r, w3)"
  shows "is_file (fs w2 (archivePath e k filename))
         \<and> (r = Inr () \<longrightarrow>
               (\<exists>w4. main e argv w0 = Some (0, w4) \<and> fs w4 (archivePath e k filename) = None
                  \<and> Unlink (archivePath e k filename) \<in> set (trace w4)))
         \<and> (\<forall>err. r = Inl err \<longrightarrow>
               main e argv w0
                 = Some (1, console_error (cross_mark @ '' Setup failed: '' @ message err) w3)
               \<and> fs w3 (archivePath e k filename) = fs w2 (archivePath e k filename)
               \<and> is_file (fs w3 (archivePath e k filename)))"
proof -
  let ?a = "archivePath e k filename"
  let ?w = "console_log (''Setting up Python for platform: '' @ k) w0"
  from PLATFORMS_basename[OF assms(1)] assms(2) have f: "plain filename" "filename \<noteq> ''python''"
    by auto
  have file2: "is_file (fs w2 ?a)"
    using download_file[OF assms(6)] .
  have keep: "fs w3 ?a = fs w2 ?a"
    using extract_archive_frame[OF assms(7) file2 archive_outside_pythonDir[OF f]] .
  have run: "downloadAndSetup e k ?w = Some (extract_and_clean e k (Some (type c)) filename w2)"
    using assms(4,5,6) by (simp add: downloadAndSetup_def get_property_entry[OF assms(1)] assms(2))
  have ok: "\<exists>w4. main e argv w0 = Some (0, w4) \<and> fs w4 ?a = None \<and> Unlink ?a \<in> set (trace w4)"
    if "r = Inr ()"
  proof -
    from unlink_ok[of w3 ?a] file2 keep obtain w4 where
      un: "unlink ?a w3 = (Inr (), w4)" "fs w4 ?a = None" "trace w4 = trace w3 @ [Unlink ?a]"
      by auto
    have "extract_and_clean e k (Some (type c)) filename w2
            = (Resolved,
               console_log (newline @ check_mark @ '' Python setup completed at: ''
                              @ path_string (pythonDir e k))
                 (console_log (''Cleaned up '' @ template (Some (type c)) @ '' file'') w4))"
      using assms(7) that un(1) by (simp add: extract_and_clean_def)
    with run un(2,3) show ?thesis
      by (simp add: main_def assms(3))
  qed
  have bad: "main e argv w0 = Some (1, console_error (cross_mark @ '' Setup failed: '' @ message err) w3)"
    if "r = Inl err" for err
  proof -
    have "extract_and_clean e k (Some (type c)) filename w2 = (Rejected err, w3)"
      using assms(7) that by (simp add: extract_and_clean_def)
    with run show ?thesis
      by (simp add: main_def assms(3))
  qed
  show ?thesis
    using file2 keep ok bad by simp
qed


lemma linux_entry: "(''linux-x64'', linux_config) \<in> set PLATFORMS"
  by (simp add: PLATFORMS_def linux_config_def)

lemma linux_basename: "basename (Some (url linux_config)) = Inr linux_filename"
  by (simp add: linux_config_def linux_filename_def standalone_url_def RELEASE_TAG_def
      PYTHON_VERSION_def basename_def components_def)

lemma linux_paths:
  "resourcesDir (example_env net err) ''linux-x64'' = [''repo'', ''resources'', ''python'', ''linux-x64'']"
  "pythonDir (example_env net err) ''linux-x64'' = linux_pythonDir"
  "archivePath (example_env net err) ''linux-x64'' linux_filename = linux_archive"
  by (simp_all add: resourcesDir_def pythonDir_def archivePath_def path_join_def components_def
      example_env_def linux_pythonDir_def linux_archive_def linux_filename_def)

lemma linux_run:
  "\<exists>w1 w2. mkdir (resourcesDir (example_env redirect_then_ok err) ''linux-x64'')
           (announce ''linux-x64'' (Some (url linux_config)) (Some (type linux_config))
              (console_log (''Setting up Python for platform: '' @ ''linux-x64'') empty_world)) = (Inr (), w1)
     \<and> download (example_env redirect_then_ok err) (Some (url linux_config)) linux_archive w1 = Some (Resolved, w2)
     \<and> fs w2 = [[''repo''] \<mapsto> Dir, [''repo'', ''resources''] \<mapsto> Dir, [''repo'', ''resources'', ''python''] \<mapsto> Dir,
                 [''repo'', ''resources'', ''python'', ''linux-x64''] \<mapsto> Dir, linux_archive \<mapsto> File ''abcd'']"
  apply (simp add: linux_paths mkdir_def Let_def announce_def console_log_def emit_def empty_world_def is_file_def)
  apply (subst download.simps)
  apply (simp add: https_get_example redirect_then_ok_def moved_response_def emit_def)
  apply (subst download.simps)
  apply (simp add: https_get_example redirect_then_ok_def ok_response_def emit_def receive_def
        createWriteStream_def Let_def is_dir_def is_file_def linux_archive_def
        stdout_write_def append_file_def console_log_def)
  apply (auto simp: fun_eq_iff prefix_Cons split: list.splits)
  done


lemma tar_extract_read:
  assumes "fs w file = Some (File bytes)" and "tar_read e bytes = (entries, err)"
    and "is_dir (fs w) cwd"
  shows "\<exists>w'. tar_extract e file cwd strip w
                 = ((case err of None \<Rightarrow> Inr () | Some m \<Rightarrow> Inl (External m)), w')
           \<and> fs w' = foldl (tar_unpack_entry cwd strip) (fs w) entries"
  using assms by (cases err) (simp_all add: tar_extract_def Let_def)

lemma extractTarGz_read:
  assumes "fs w a = Some (File bytes)" and "tar_read e bytes = (entries, err)"
    and "\<forall>q \<in> set (prefixes d). \<not> is_file (fs w q)"
  shows "\<exists>w'. extractTarGz e a d w
                 = ((case err of None \<Rightarrow> Inr () | Some m \<Rightarrow> Inl (External m)), w')
           \<and> fs w' = foldl (tar_unpack_entry d 1)
                        (\<lambda>q. if q \<noteq> [] \<and> prefix q d then Some Dir else fs w q) entries"
proof -
  let ?w1 = "console_log (''Extracting tar.gz to '' @ path_string d @ ''...'') w"
  have "\<forall>q \<in> set (prefixes d). \<not> is_file (fs ?w1 q)"
    using assms(3) by simp
  from mkdir_ok[OF this] obtain w2 where mk: "mkdir d ?w1 = (Inr (), w2)"
    and f2: "fs w2 = (\<lambda>q. if q \<noteq> [] \<and> prefix q d then Some Dir else fs w q)"
    by (auto simp only: fs_console_log)
  have "is_file (fs w a)"
    using assms(1) by (simp add: is_file_def)
  with assms(3) have "\<not> prefix a d"
    by (auto simp: in_set_prefixes)
  then have arch: "fs w2 a = Some (File bytes)"
    using assms(1) by (simp add: f2)
  have dir: "is_dir (fs w2) d"
    by (simp add: is_dir_def f2)
  from tar_extract_read[OF arch assms(2) dir, of 1]
  obtain w3 where "tar_extract e a d 1 w2
                     = ((case err of None \<Rightarrow> Inr () | Some m \<Rightarrow> Inl (External m)), w3)"
    and "fs w3 = foldl (tar_unpack_entry d 1) (fs w2) entries"
    by blast
  with mk show ?thesis
    by (cases err) (simp_all add: extractTarGz_def f2)
qed

lemma linux_not_in_the_way:
  assumes "fs w2 = [[''repo''] \<mapsto> Dir, [''repo'', ''resources''] \<mapsto> Dir,
                    [''repo'', ''resources'', ''python''] \<mapsto> Dir,
                    [''repo'', ''resources'', ''python'', ''linux-x64''] \<mapsto> Dir,
                    linux_archive \<mapsto> File ''abcd'']"
  shows "\<forall>q \<in> set (prefixes linux_pythonDir). \<not> is_file (fs w2 q)"
    and "fs w2 linux_archive = Some (File ''abcd'')"
  by (simp_all add: assms linux_pythonDir_def linux_archive_def linux_filename_def is_file_def)

lemma linux_outcome:
  "\<exists>w1 w2 w3.
      mkdir (resourcesDir (example_env redirect_then_ok err) ''linux-x64'')
           (announce ''linux-x64'' (Some (url linux_config)) (Some (type linux_config))
              (console_log (''Setting up Python for platform: '' @ ''linux-x64'') empty_world)) = (Inr (), w1)
     \<and> download (example_env redirect_then_ok err) (Some (url linux_config)) linux_archive w1 = Some (Resolved, w2)
     \<and> fs w2 linux_archive = Some (File ''abcd'')
     \<and> extract_archive (example_env redirect_then_ok err) (Some (type linux_config)) linux_archive
          linux_pythonDir w2 = ((case err of None \<Rightarrow> Inr () | Some m \<Rightarrow> Inl (External m)), w3)"
proof -
  from linux_run[of err] obtain w1 w2 where
    mk: "mkdir (resourcesDir (example_env redirect_then_ok err) ''linux-x64'')
           (announce ''linux-x64'' (Some (url linux_config)) (Some (type linux_config))
              (console_log (''Setting up Python for platform: '' @ ''linux-x64'') empty_world)) = (Inr (), w1)"
    and dl: "download (example_env redirect_then_ok err) (Some (url linux_config)) linux_archive w1
               = Some (Resolved, w2)"
    and f2: "fs w2 = [[''repo''] \<mapsto> Dir, [''repo'', ''resources''] \<mapsto> Dir,
                    [''repo'', ''resources'', ''python''] \<mapsto> Dir,
                    [''repo'', ''resources'', ''python'', ''linux-x64''] \<mapsto> Dir,
                    linux_archive \<mapsto> File ''abcd'']"
    by blast
  have rd: "tar_read (example_env redirect_then_ok err) ''abcd'' = (example_entries, err)"
    by (simp add: example_env_def)
  from extractTarGz_read[OF linux_not_in_the_way(2)[OF f2] rd linux_not_in_the_way(1)[OF f2]]
  obtain w3 where "extractTarGz (example_env redirect_then_ok err) linux_archive linux_pythonDir w2
                 = ((case err of None \<Rightarrow> Inr () | Some m \<Rightarrow> Inl (External m)), w3)"
    by blast
  then have "extract_archive (example_env redirect_then_ok err) (Some (type linux_config)) linux_archive
          linux_pythonDir w2 = ((case err of None \<Rightarrow> Inr () | Some m \<Rightarrow> Inl (External m)), w3)"
    by (simp add: extract_archive_def linux_config_def)
  with mk dl linux_not_in_the_way(2)[OF f2] show ?thesis by blast
qed

lemma linux_target: "targetPlatform (example_env net err) (example_argv ''linux-x64'') = ''linux-x64''"
  by (simp add: targetPlatform_def example_argv_def)

lemma linux_absent: "\<not> existsSync (pythonDir (example_env net err) ''linux-x64'') empty_world"
  by (simp add: linux_paths linux_pythonDir_def existsSync_def empty_world_def)

theorem archive_deleted_iff_extracted_witness:
  "(\<exists>w4. main (example_env redirect_then_ok None) (example_argv ''linux-x64'') empty_world = Some (0, w4)
        \<and> fs w4 linux_archive = None \<and> Unlink linux_archive \<in> set (trace w4))
   \<and> (\<exists>w3. main (example_env redirect_then_ok (Some ''unexpected end of file''))
              (example_argv ''linux-x64'') empty_world
            = Some (1, console_error (cross_mark @ '' Setup failed: '' @ ''unexpected end of file'') w3)
        \<and> fs w3 linux_archive = Some (File ''abcd''))"
proof -
  have good: "\<exists>w4. main (example_env redirect_then_ok None) (example_argv ''linux-x64'') empty_world
                    = Some (0, w4)
        \<and> fs w4 linux_archive = None \<and> Unlink linux_archive \<in> set (trace w4)"
  proof -
    from linux_outcome[of None] obtain w1 w2 w3 where
      mk: "mkdir (resourcesDir (example_env redirect_then_ok None) ''linux-x64'')
           (announce ''linux-x64'' (Some (url linux_config)) (Some (type linux_config))
              (console_log (''Setting up Python for platform: '' @ ''linux-x64'') empty_world)) = (Inr (), w1)"
      and dl: "download (example_env redirect_then_ok None) (Some (url linux_config))
                 (archivePath (example_env redirect_then_ok None) ''linux-x64'' linux_filename) w1
               = Some (Resolved, w2)"
      and ex: "extract_archive (example_env redirect_then_ok None) (Some (type linux_config))
                 (archivePath (example_env redirect_then_ok None) ''linux-x64'' linux_filename)
                 (pythonDir (example_env redirect_then_ok None) ''linux-x64'') w2 = (Inr (), w3)"
      by (auto simp only: linux_paths option.case)
    from archive_deleted_iff_extracted[OF linux_entry linux_basename linux_target linux_absent mk dl ex]
    show ?thesis
      by (auto simp only: linux_paths)
  qed
  have bad: "\<exists>w3. main (example_env redirect_then_ok (Some ''unexpected end of file''))
              (example_argv ''linux-x64'') empty_world
            = Some (1, console_error (cross_mark @ '' Setup failed: '' @ ''unexpected end of file'') w3)
        \<and> fs w3 linux_archive = Some (File ''abcd'')"
  proof -
    let ?e = "example_env redirect_then_ok (Some ''unexpected end of file'')"
    from linux_outcome[of "Some ''unexpected end of file''"] obtain w1 w2 w3 where
      mk: "mkdir (resourcesDir ?e ''linux-x64'')
           (announce ''linux-x64'' (Some (url linux_config)) (Some (type linux_config))
              (console_log (''Setting up Python for platform: '' @ ''linux-x64'') empty_world)) = (Inr (), w1)"
      and dl: "download ?e (Some (url linux_config)) (archivePath ?e ''linux-x64'' linux_filename) w1
               = Some (Resolved, w2)"
      and f2: "fs w2 linux_archive = Some (File ''abcd'')"
      and ex: "extract_archive ?e (Some (type linux_config)) (archivePath ?e ''linux-x64'' linux_filename)
                 (pythonDir ?e ''linux-x64'') w2 = (Inl (External ''unexpected end of file''), w3)"
      by (auto simp only: linux_paths option.case)
    from archive_deleted_iff_extracted[OF linux_entry linux_basename linux_target linux_absent mk dl ex]
    have "main ?e (example_argv ''linux-x64'') empty_world
            = Some (1, console_error (cross_mark @ '' Setup failed: '' @ message (External ''unexpected end of file'')) w3)
          \<and> fs w3 linux_archive = fs w2 linux_archive"
      by (auto simp only: linux_paths)
    with f2 have "main ?e (example_argv ''linux-x64'') empty_world
            = Some (1, console_error (cross_mark @ '' Setup failed: '' @ ''unexpected end of file'') w3)
          \<and> fs w3 linux_archive = Some (File ''abcd'')"
      by (simp only: message.simps)
    then show ?thesis by (rule exI[of _ w3])
  qed
  from good bad show ?thesis by (rule conjI)
qed



section \<open>A failed extraction and the next run\<close>

lemma pythonDir_dirname: "dirname e' = dirname e \<Longrightarrow> pythonDir e' k = pythonDir e k"
  by (simp add: pythonDir_def resourcesDir_def)

lemma extractTarGz_after_mkdir:
  assumes "\<forall>q \<in> set (prefixes d). \<not> is_file (fs w q)" and "d \<noteq> []"
    and "extractTarGz e a d w = (r, w1)"
  shows "trace w1 = trace w @ [Stdout (''Extracting tar.gz to '' @ path_string d @ ''...'' @ newline),
                               Mkdir d, TarExtract a d 1]
                      @ (case r of Inl err \<Rightarrow> []
                         | Inr u \<Rightarrow> [Stdout (''Extraction completed!'' @ newline)])
         \<and> fs w1 d = Some Dir"
proof -
  let ?w1 = "console_log (''Extracting tar.gz to '' @ path_string d @ ''...'') w"
  have "\<forall>q \<in> set (prefixes d). \<not> is_file (fs ?w1 q)"
    using assms(1) by simp
  from mkdir_ok[OF this] obtain w2 where mk: "mkdir d ?w1 = (Inr (), w2)"
    and t2: "trace w2 = trace ?w1 @ [Mkdir d]"
    and f2: "fs w2 = (\<lambda>q. if q \<noteq> [] \<and> prefix q d then Some Dir else fs w q)"
    by (auto simp only: fs_console_log)
  obtain r3 w3 where tar: "tar_extract e a d 1 w2 = (r3, w3)" by (cases "tar_extract e a d 1 w2")
  have "fs w3 d = fs w2 d"
    using tar_extract_frame[OF tar, of d] by simp
  with assms(2) have f3: "fs w3 d = Some Dir"
    by (simp add: f2)
  have t3: "trace w3 = trace w2 @ [TarExtract a d 1]"
    using tar_extract_trace[OF tar] .
  from assms(3) mk tar f3 t3 t2 show ?thesis
    by (cases r3) (auto simp: extractTarGz_def)
qed

lemma extractZip_after_mkdir:
  assumes "\<forall>q \<in> set (prefixes d). \<not> is_file (fs w q)" and "d \<noteq> []"
    and "extractZip e a d w = (r, w1)"
  shows "trace w1 = trace w @ [Stdout (''Extracting zip to '' @ path_string d @ ''...'' @ newline),
                               Mkdir d, ExtractAllTo a d True]
                      @ (case r of Inl err \<Rightarrow> []
                         | Inr u \<Rightarrow> [Stdout (''Extraction completed!'' @ newline)])
         \<and> fs w1 d = Some Dir"
proof -
  let ?w1 = "console_log (''Extracting zip to '' @ path_string d @ ''...'') w"
  have "\<forall>q \<in> set (prefixes d). \<not> is_file (fs ?w1 q)"
    using assms(1) by simp
  from mkdir_ok[OF this] obtain w2 where mk: "mkdir d ?w1 = (Inr (), w2)"
    and t2: "trace w2 = trace ?w1 @ [Mkdir d]"
    and f2: "fs w2 = (\<lambda>q. if q \<noteq> [] \<and> prefix q d then Some Dir else fs w q)"
    by (auto simp only: fs_console_log)
  obtain r3 w3 where zip: "extractAllTo e a d True w2 = (r3, w3)"
    by (cases "extractAllTo e a d True w2")
  have "fs w3 d = fs w2 d"
    using extractAllTo_frame[OF zip, of d] by simp
  with assms(2) have f3: "fs w3 d = Some Dir"
    by (simp add: f2)
  have t3: "trace w3 = trace w2 @ [ExtractAllTo a d True]"
    using extractAllTo_trace[OF zip] .
  from assms(3) mk zip f3 t3 t2 show ?thesis
    by (cases r3) (auto simp: extractZip_def)
qed

text \<open>
  C10. For a key of the table, let no file be in the way of the destination directory.
  Then each of the two extractors, whatever the archive holds and whether or not the
  unpacking succeeds, logs its line, creates the directory, and only then unpacks; the
  directory exists when it returns. \<open>downloadAndSetup\<close> runs one of the two for the type of
  the key. So if the extraction fails, the directory is there, and, as the check at the
  start of \<open>downloadAndSetup\<close> looks at nothing but the existence of that path, every later
  run for the key, from any world in which the path is as the failed run left it,
  whatever lies below it, and whatever the network would answer, logs that Python already
  exists and exits with code 0, without a request and without touching the file system.
\<close>

theorem failed_extraction_blocks_later_runs:
  assumes "(k, c) \<in> set PLATFORMS"
    and "\<forall>q \<in> set (prefixes (pythonDir e k)). \<not> is_file (fs w q)"
  shows "(\<exists>r w1. extractTarGz e a (pythonDir e k) w = (r, w1)
            \<and> trace w1 = trace w @
                 [Stdout (''Extracting tar.gz to '' @ path_string (pythonDir e k) @ ''...'' @ newline),
                  Mkdir (pythonDir e k), TarExtract a (pythonDir e k) 1]
                 @ (case r of Inl err \<Rightarrow> []
                    | Inr u \<Rightarrow> [Stdout (''Extraction completed!'' @ newline)])
            \<and> fs w1 (pythonDir e k) = Some Dir)
         \<and> (\<exists>r w1. extractZip e a (pythonDir e k) w = (r, w1)
            \<and> trace w1 = trace w @
                 [Stdout (''Extracting zip to '' @ path_string (pythonDir e k) @ ''...'' @ newline),
                  Mkdir (pythonDir e k), ExtractAllTo a (pythonDir e k) True]
                 @ (case r of Inl err \<Rightarrow> []
                    | Inr u \<Rightarrow> [Stdout (''Extraction completed!'' @ newline)])
            \<and> fs w1 (pythonDir e k) = Some Dir)
         \<and> extract_archive e (Some (type c)) a (pythonDir e k) w
             = (if type c = ''tar.gz'' then extractTarGz e a (pythonDir e k) w
                else extractZip e a (pythonDir e k) w)
         \<and> (\<forall>err w1. extract_archive e (Some (type c)) a (pythonDir e k) w = (Inl err, w1) \<longrightarrow>
               (\<exists>line ev. trace w1 = trace w @ [Stdout line, Mkdir (pythonDir e k), ev]
                  \<and> (ev = TarExtract a (pythonDir e k) 1 \<or> ev = ExtractAllTo a (pythonDir e k) True))
               \<and> fs w1 (pythonDir e k) = Some Dir
               \<and> (\<forall>e' argv w'.
                     dirname e' = dirname e \<and> targetPlatform e' argv = k
                       \<and> fs w' (pythonDir e k) = fs w1 (pythonDir e k)
                     \<longrightarrow> (\<exists>w''. main e' argv w' = Some (0, w'') \<and> fs w'' = fs w'
                            \<and> trace w'' = trace w' @
                                 [Stdout (''Setting up Python for platform: '' @ k @ newline),
                                  Stdout (''Python already exists at '' @ path_string (pythonDir e k)
                                            @ newline)])))"
proof -
  let ?d = "pythonDir e k"
  have d: "?d \<noteq> []"
    by (simp add: pythonDir_eq)
  obtain rt wt where tar: "extractTarGz e a ?d w = (rt, wt)" by (cases "extractTarGz e a ?d w")
  obtain rz wz where zip: "extractZip e a ?d w = (rz, wz)" by (cases "extractZip e a ?d w")
  note tar_facts = extractTarGz_after_mkdir[OF assms(2) d tar]
  note zip_facts = extractZip_after_mkdir[OF assms(2) d zip]
  have one: "\<exists>r w1. extractTarGz e a ?d w = (r, w1)
            \<and> trace w1 = trace w @
                 [Stdout (''Extracting tar.gz to '' @ path_string ?d @ ''...'' @ newline),
                  Mkdir ?d, TarExtract a ?d 1]
                 @ (case r of Inl err \<Rightarrow> []
                    | Inr u \<Rightarrow> [Stdout (''Extraction completed!'' @ newline)])
            \<and> fs w1 ?d = Some Dir"
    using tar tar_facts by (intro exI[of _ rt] exI[of _ wt]) simp
  have two: "\<exists>r w1. extractZip e a ?d w = (r, w1)
            \<and> trace w1 = trace w @
                 [Stdout (''Extracting zip to '' @ path_string ?d @ ''...'' @ newline),
                  Mkdir ?d, ExtractAllTo a ?d True]
                 @ (case r of Inl err \<Rightarrow> []
                    | Inr u \<Rightarrow> [Stdout (''Extraction completed!'' @ newline)])
            \<and> fs w1 ?d = Some Dir"
    using zip zip_facts by (intro exI[of _ rz] exI[of _ wz]) simp
  have three: "extract_archive e (Some (type c)) a ?d w
             = (if type c = ''tar.gz'' then extractTarGz e a ?d w else extractZip e a ?d w)"
    using PLATFORMS_entry(3)[OF assms(1)] by (auto simp: extract_archive_def)
  have first: "(\<exists>line ev. trace w1 = trace w @ [Stdout line, Mkdir ?d, ev]
            \<and> (ev = TarExtract a ?d 1 \<or> ev = ExtractAllTo a ?d True)) \<and> fs w1 ?d = Some Dir"
    if failed: "extract_archive e (Some (type c)) a ?d w = (Inl err, w1)" for err w1
  proof (cases "type c = ''tar.gz''")
    case True
    with failed three have "extractTarGz e a ?d w = (Inl err, w1)"
      by simp
    from extractTarGz_after_mkdir[OF assms(2) d this] show ?thesis by simp
  next
    case False
    with failed three have "extractZip e a ?d w = (Inl err, w1)"
      by simp
    from extractZip_after_mkdir[OF assms(2) d this] show ?thesis by simp
  qed
  have later: "\<exists>w''. main e' argv w' = Some (0, w'') \<and> fs w'' = fs w'
                      \<and> trace w'' = trace w' @
                           [Stdout (''Setting up Python for platform: '' @ k @ newline),
                            Stdout (''Python already exists at '' @ path_string ?d @ newline)]"
    if "extract_archive e (Some (type c)) a ?d w = (Inl err, w1)"
      "dirname e' = dirname e" "targetPlatform e' argv = k" "fs w' ?d = fs w1 ?d"
    for err w1 e' argv w'
  proof -
    have same: "pythonDir e' k = ?d"
      using that(2) by (rule pythonDir_dirname)
    have "existsSync (pythonDir e' k) (console_log (''Setting up Python for platform: '' @ k) w')"
      using that(4) first[OF that(1)] by (simp add: same existsSync_def)
    from skip_when_present[OF assms(1) this] show ?thesis
      by (simp add: main_def that(3) same)
  qed
  have four: "\<forall>err w1. extract_archive e (Some (type c)) a ?d w = (Inl err, w1) \<longrightarrow>
               (\<exists>line ev. trace w1 = trace w @ [Stdout line, Mkdir ?d, ev]
                  \<and> (ev = TarExtract a ?d 1 \<or> ev = ExtractAllTo a ?d True))
               \<and> fs w1 ?d = Some Dir
               \<and> (\<forall>e' argv w'.
                     dirname e' = dirname e \<and> targetPlatform e' argv = k \<and> fs w' ?d = fs w1 ?d
                     \<longrightarrow> (\<exists>w''. main e' argv w' = Some (0, w'') \<and> fs w'' = fs w'
                            \<and> trace w'' = trace w' @
                                 [Stdout (''Setting up Python for platform: '' @ k @ newline),
                                  Stdout (''Python already exists at '' @ path_string ?d @ newline)]))"
    using first later by blast
  from one two three four show ?thesis
    by (intro conjI)
qed

lemma truncated_env_simps:
  "dirname truncated_env = dirname (example_env always_not_found None)"
  "tar_read truncated_env bytes = (take 2 example_entries, Some ''unexpected end of file'')"
  "zip_read truncated_env bytes = ([], Some ''Invalid or unsupported zip format. No END header found'')"
  by (simp_all add: truncated_env_def)

lemma downloaded_world_fs:
  "fs downloaded_world = [[''repo''] \<mapsto> Dir, [''repo'', ''resources''] \<mapsto> Dir,
                    [''repo'', ''resources'', ''python''] \<mapsto> Dir,
                    [''repo'', ''resources'', ''python'', ''linux-x64''] \<mapsto> Dir,
                    linux_archive \<mapsto> File ''abcd'']"
  by (simp add: downloaded_world_def)

lemma truncated_unpack:
  "foldl (tar_unpack_entry linux_pythonDir 1) f (take 2 example_entries)
     (linux_pythonDir @ [''bin'', ''python3'']) = Some (File ''ELF'')"
  "f (linux_pythonDir @ [''lib'', ''os.py'']) = None \<Longrightarrow>
   foldl (tar_unpack_entry linux_pythonDir 1) f (take 2 example_entries)
     (linux_pythonDir @ [''lib'', ''os.py'']) = None"
  by (simp_all add: example_entries_def tar_unpack_entry_def stripped_example write_node_def
      Let_def components_def strict_prefix_def del: One_nat_def)

lemma windows_entry: "(''win32-arm64'', windows_config) \<in> set PLATFORMS"
  by (simp add: PLATFORMS_def windows_config_def)

lemma windows_paths:
  "pythonDir (example_env net err) ''win32-arm64'' = windows_pythonDir"
  by (simp add: resourcesDir_def pythonDir_def path_join_def components_def
      example_env_def windows_pythonDir_def)

lemma windows_target:
  "targetPlatform (example_env net err) (example_argv ''win32-arm64'') = ''win32-arm64''"
  by (simp add: targetPlatform_def example_argv_def)

lemma windows_free:
  "\<forall>q \<in> set (prefixes windows_pythonDir). \<not> is_file (fs windows_world q)"
  by (simp add: windows_world_def windows_pythonDir_def windows_archive_def is_file_def)

lemma windows_extract:
  "\<exists>w1. extractZip truncated_env windows_archive windows_pythonDir windows_world
           = (Inl (External ''Invalid or unsupported zip format. No END header found''), w1)
     \<and> fs w1 (windows_pythonDir @ [''python.exe'']) = None"
  by (simp add: extractZip_def mkdir_def extractAllTo_def Let_def console_log_def emit_def
      truncated_env_simps windows_world_def windows_pythonDir_def windows_archive_def
      is_file_def prefix_Cons)

theorem failed_extraction_blocks_later_runs_witness:
  "(\<exists>w1. extract_archive truncated_env (Some (type linux_config)) linux_archive linux_pythonDir
           downloaded_world = (Inl (External ''unexpected end of file''), w1)
     \<and> trace w1 = [Stdout (''Extracting tar.gz to '' @ path_string linux_pythonDir @ ''...'' @ newline),
                   Mkdir linux_pythonDir, TarExtract linux_archive linux_pythonDir 1]
     \<and> fs w1 linux_pythonDir = Some Dir
     \<and> fs w1 (linux_pythonDir @ [''bin'', ''python3'']) = Some (File ''ELF'')
     \<and> fs w1 (linux_pythonDir @ [''lib'', ''os.py'']) = None
     \<and> (\<exists>w''. main (example_env redirect_then_ok None) (example_argv ''linux-x64'') w1 = Some (0, w'')
           \<and> fs w'' = fs w1 \<and> requests (trace w'') = requests (trace w1)))
   \<and> (\<exists>w1. extract_archive truncated_env (Some (type windows_config)) windows_archive
           windows_pythonDir windows_world
             = (Inl (External ''Invalid or unsupported zip format. No END header found''), w1)
     \<and> trace w1 = [Stdout (''Extracting zip to '' @ path_string windows_pythonDir @ ''...'' @ newline),
                   Mkdir windows_pythonDir, ExtractAllTo windows_archive windows_pythonDir True]
     \<and> fs w1 windows_pythonDir = Some Dir
     \<and> fs w1 (windows_pythonDir @ [''python.exe'']) = None
     \<and> (\<exists>w''. main (example_env redirect_then_ok None) (example_argv ''win32-arm64'') w1 = Some (0, w'')
           \<and> fs w'' = fs w1 \<and> requests (trace w'') = requests (trace w1)))"
proof -
  have linux: "\<exists>w1. extract_archive truncated_env (Some (type linux_config)) linux_archive linux_pythonDir
           downloaded_world = (Inl (External ''unexpected end of file''), w1)
     \<and> trace w1 = [Stdout (''Extracting tar.gz to '' @ path_string linux_pythonDir @ ''...'' @ newline),
                   Mkdir linux_pythonDir, TarExtract linux_archive linux_pythonDir 1]
     \<and> fs w1 linux_pythonDir = Some Dir
     \<and> fs w1 (linux_pythonDir @ [''bin'', ''python3'']) = Some (File ''ELF'')
     \<and> fs w1 (linux_pythonDir @ [''lib'', ''os.py'']) = None
     \<and> (\<exists>w''. main (example_env redirect_then_ok None) (example_argv ''linux-x64'') w1 = Some (0, w'')
           \<and> fs w'' = fs w1 \<and> requests (trace w'') = requests (trace w1))"
  proof -
    have dir: "pythonDir truncated_env ''linux-x64'' = linux_pythonDir"
      using pythonDir_dirname[OF truncated_env_simps(1)] by (simp only: linux_paths)
    have free: "\<forall>q \<in> set (prefixes linux_pythonDir). \<not> is_file (fs downloaded_world q)"
      and arch: "fs downloaded_world linux_archive = Some (File ''abcd'')"
      using linux_not_in_the_way[OF downloaded_world_fs] by blast+
    from extractTarGz_read[OF arch truncated_env_simps(2) free]
    obtain w1 where tar: "extractTarGz truncated_env linux_archive linux_pythonDir downloaded_world
                            = (Inl (External ''unexpected end of file''), w1)"
      and f1: "fs w1 = foldl (tar_unpack_entry linux_pythonDir 1)
                         (\<lambda>q. if q \<noteq> [] \<and> prefix q linux_pythonDir then Some Dir else fs downloaded_world q)
                         (take 2 example_entries)"
      by (auto simp only: option.case)
    have ex: "extract_archive truncated_env (Some (type linux_config)) linux_archive
                (pythonDir truncated_env ''linux-x64'') downloaded_world
                = (Inl (External ''unexpected end of file''), w1)"
      using tar by (simp add: extract_archive_def linux_config_def dir)
    have free': "\<forall>q \<in> set (prefixes (pythonDir truncated_env ''linux-x64'')). \<not> is_file (fs downloaded_world q)"
      using free by (simp only: dir)
    have a: "fs w1 (linux_pythonDir @ [''bin'', ''python3'']) = Some (File ''ELF'')"
      by (simp only: f1 truncated_unpack(1))
    have "(if linux_pythonDir @ [''lib'', ''os.py''] \<noteq> [] \<and> prefix (linux_pythonDir @ [''lib'', ''os.py'']) linux_pythonDir
           then Some Dir else fs downloaded_world (linux_pythonDir @ [''lib'', ''os.py''])) = None"
      by (simp add: downloaded_world_fs linux_pythonDir_def linux_archive_def)
    then have b: "fs w1 (linux_pythonDir @ [''lib'', ''os.py'']) = None"
      by (simp only: f1 truncated_unpack(2))
    have same: "dirname (example_env redirect_then_ok None) = dirname truncated_env"
      by (simp add: truncated_env_def example_env_def)
    note inst = failed_extraction_blocks_later_runs[OF linux_entry free', of linux_archive]
    from inst obtain r0 w0 where
      run: "extractTarGz truncated_env linux_archive linux_pythonDir downloaded_world = (r0, w0)"
      and t0: "trace w0 = trace downloaded_world @
              [Stdout (''Extracting tar.gz to '' @ path_string linux_pythonDir @ ''...'' @ newline),
               Mkdir linux_pythonDir, TarExtract linux_archive linux_pythonDir 1]
              @ (case r0 of Inl err \<Rightarrow> []
                 | Inr u \<Rightarrow> [Stdout (''Extraction completed!'' @ newline)])"
      unfolding dir by blast
    from run tar have "r0 = Inl (External ''unexpected end of file'')" "w0 = w1"
      by simp_all
    with t0 have t: "trace w1 =
              [Stdout (''Extracting tar.gz to '' @ path_string linux_pythonDir @ ''...'' @ newline),
               Mkdir linux_pythonDir, TarExtract linux_archive linux_pythonDir 1]"
      by (simp add: downloaded_world_def)
    from inst ex
    have c: "fs w1 linux_pythonDir = Some Dir"
      and later: "\<And>e' argv w'. dirname e' = dirname truncated_env \<Longrightarrow> targetPlatform e' argv = ''linux-x64''
          \<Longrightarrow> fs w' linux_pythonDir = fs w1 linux_pythonDir
          \<Longrightarrow> \<exists>w''. main e' argv w' = Some (0, w'') \<and> fs w'' = fs w'
                 \<and> trace w'' = trace w' @
                      [Stdout (''Setting up Python for platform: '' @ ''linux-x64'' @ newline),
                       Stdout (''Python already exists at '' @ path_string linux_pythonDir @ newline)]"
      by (simp_all only: dir)
    from later[OF same linux_target refl] obtain w'' where
      "main (example_env redirect_then_ok None) (example_argv ''linux-x64'') w1 = Some (0, w'')"
      "fs w'' = fs w1" "requests (trace w'') = requests (trace w1)"
      by auto
    then have "\<exists>w''. main (example_env redirect_then_ok None) (example_argv ''linux-x64'') w1 = Some (0, w'')
             \<and> fs w'' = fs w1 \<and> requests (trace w'') = requests (trace w1)"
      by (intro exI[of _ w'']) simp
    with ex t a b c show ?thesis
      by (intro exI[of _ w1]) (simp only: dir)
  qed
  have windows: "\<exists>w1. extract_archive truncated_env (Some (type windows_config)) windows_archive
           windows_pythonDir windows_world
             = (Inl (External ''Invalid or unsupported zip format. No END header found''), w1)
     \<and> trace w1 = [Stdout (''Extracting zip to '' @ path_string windows_pythonDir @ ''...'' @ newline),
                   Mkdir windows_pythonDir, ExtractAllTo windows_archive windows_pythonDir True]
     \<and> fs w1 windows_pythonDir = Some Dir
     \<and> fs w1 (windows_pythonDir @ [''python.exe'']) = None
     \<and> (\<exists>w''. main (example_env redirect_then_ok None) (example_argv ''win32-arm64'') w1 = Some (0, w'')
           \<and> fs w'' = fs w1 \<and> requests (trace w'') = requests (trace w1))"
  proof -
    have dir: "pythonDir truncated_env ''win32-arm64'' = windows_pythonDir"
      using pythonDir_dirname[OF truncated_env_simps(1)] by (simp only: windows_paths)
    have free': "\<forall>q \<in> set (prefixes (pythonDir truncated_env ''win32-arm64'')). \<not> is_file (fs windows_world q)"
      using windows_free by (simp only: dir)
    from windows_extract obtain w1 where
      zip: "extractZip truncated_env windows_archive windows_pythonDir windows_world
              = (Inl (External ''Invalid or unsupported zip format. No END header found''), w1)"
      and a: "fs w1 (windows_pythonDir @ [''python.exe'']) = None"
      by blast
    have ex: "extract_archive truncated_env (Some (type windows_config)) windows_archive
                (pythonDir truncated_env ''win32-arm64'') windows_world
                = (Inl (External ''Invalid or unsupported zip format. No END header found''), w1)"
      using zip by (simp add: extract_archive_def windows_config_def dir)
    have same: "dirname (example_env redirect_then_ok None) = dirname truncated_env"
      by (simp add: truncated_env_def example_env_def)
    note inst = failed_extraction_blocks_later_runs[OF windows_entry free', of windows_archive]
    from inst obtain r0 w0 where
      run: "extractZip truncated_env windows_archive windows_pythonDir windows_world = (r0, w0)"
      and t0: "trace w0 = trace windows_world @
              [Stdout (''Extracting zip to '' @ path_string windows_pythonDir @ ''...'' @ newline),
               Mkdir windows_pythonDir, ExtractAllTo windows_archive windows_pythonDir True]
              @ (case r0 of Inl err \<Rightarrow> []
                 | Inr u \<Rightarrow> [Stdout (''Extraction completed!'' @ newline)])"
      unfolding dir by blast
    from run zip
    have "r0 = Inl (External ''Invalid or unsupported zip format. No END header found'')" "w0 = w1"
      by simp_all
    with t0 have t: "trace w1 =
              [Stdout (''Extracting zip to '' @ path_string windows_pythonDir @ ''...'' @ newline),
               Mkdir windows_pythonDir, ExtractAllTo windows_archive windows_pythonDir True]"
      by (simp add: windows_world_def)
    from inst ex
    have c: "fs w1 windows_pythonDir = Some Dir"
      and later: "\<And>e' argv w'. dirname e' = dirname truncated_env \<Longrightarrow> targetPlatform e' argv = ''win32-arm64''
          \<Longrightarrow> fs w' windows_pythonDir = fs w1 windows_pythonDir
          \<Longrightarrow> \<exists>w''. main e' argv w' = Some (0, w'') \<and> fs w'' = fs w'
                 \<and> trace w'' = trace w' @
                      [Stdout (''Setting up Python for platform: '' @ ''win32-arm64'' @ newline),
                       Stdout (''Python already exists at '' @ path_string windows_pythonDir @ newline)]"
      by (simp_all only: dir)
    from later[OF same windows_target refl] obtain w'' where
      "main (example_env redirect_then_ok None) (example_argv ''win32-arm64'') w1 = Some (0, w'')"
      "fs w'' = fs w1" "requests (trace w'') = requests (trace w1)"
      by auto
    then have "\<exists>w''. main (example_env redirect_then_ok None) (example_argv ''win32-arm64'') w1 = Some (0, w'')
             \<and> fs w'' = fs w1 \<and> requests (trace w'') = requests (trace w1)"
      by (intro exI[of _ w'']) simp
    with ex t a c show ?thesis
      by (intro exI[of _ w1]) (simp only: dir)
  qed
  from linux windows show ?thesis by (rule conjI)
qed

end
